theory Spec2Isabelle
  imports Main
begin

section \<open>Geo command marshalling: data model\<close>

text \<open>
  The development embeds \<^verbatim>\<open>valkey_glide_geo_common.c\<close>: the five argument builders, the
  integer, double and search result processors, and the generic dispatcher
  \<^verbatim>\<open>execute_geo_generic_command\<close>.

  Conventions of the embedding.
  \<^item> A C pair (\<^verbatim>\<open>char*\<close>, length) is one HOL string; a \<^verbatim>\<open>NULL\<close> pointer is \<open>None\<close>. So
    \<^verbatim>\<open>key\<close>/\<^verbatim>\<open>key_len\<close> is the field \<open>key :: string option\<close>, and an array with its count
    (\<^verbatim>\<open>members\<close>/\<^verbatim>\<open>member_count\<close>, \<^verbatim>\<open>geo_args\<close>/\<^verbatim>\<open>geo_args_count\<close>) is a list, the count being
    its length.
  \<^item> Doubles are values of a type parameter \<open>'d\<close>: the code only moves them between
    the formatting and parsing routines, which are parameters of the model.
  \<^item> The out-parameters of a builder (\<^verbatim>\<open>args_out\<close>, \<^verbatim>\<open>args_len_out\<close>, the ledger and its
    count) are addresses of the dispatcher's local variables and never \<^verbatim>\<open>NULL\<close>; so is
    \<^verbatim>\<open>return_value\<close>. They are returned as results.
\<close>

subsection \<open>Host-language values\<close>

datatype zkey = KInt int | KStr string

datatype 'd zval =
    ZNull
  | ZFalse
  | ZTrue
  | ZLong int
  | ZDouble 'd
  | ZString string
  | ZArray "(zkey \<times> 'd zval) list"

text \<open>\<^verbatim>\<open>zend_hash_index_find(ht, i)\<close>: the element stored under the integer key \<open>i\<close>.\<close>

definition zend_hash_index_find :: "(zkey \<times> 'd zval) list \<Rightarrow> int \<Rightarrow> 'd zval option" where
  "zend_hash_index_find ht i = map_of ht (KInt i)"

subsection \<open>Command arguments\<close>

text \<open>
  The fields of \<^verbatim>\<open>geo_command_args_t\<close> that the builders read. The field \<^verbatim>\<open>from\<close> is
  named \<open>from_zv\<close> and \<^verbatim>\<open>sort\<close> is named \<open>sort_tok\<close> (\<^verbatim>\<open>sort\<close>/\<^verbatim>\<open>sort_len\<close> as one string).
\<close>

record geo_with_options =
  withcoord :: bool
  withdist :: bool
  withhash :: bool

record geo_radius_options =
  with_opts :: geo_with_options
  count :: int
  any :: bool
  sort_tok :: "string option"
  store_dist :: bool

record 'd geo_command_args_t =
  key :: "string option"
  members :: "'d zval list option"
  src_member :: "string option"
  dst_member :: "string option"
  unit :: "string option"
  geo_args :: "'d zval list option"
  from_zv :: "'d zval option"
  by_radius :: "'d option"
  radius_opts :: geo_radius_options
  dest :: "string option"
  src :: "string option"

definition member_count :: "'d geo_command_args_t \<Rightarrow> nat" where
  "member_count a = (case members a of None \<Rightarrow> 0 | Some ms \<Rightarrow> length ms)"

definition geo_args_count :: "'d geo_command_args_t \<Rightarrow> nat" where
  "geo_args_count a = (case geo_args a of None \<Rightarrow> 0 | Some gs \<Rightarrow> length gs)"

subsection \<open>Memory\<close>

text \<open>
  Blocks obtained from \<^verbatim>\<open>emalloc\<close> are numbered in allocation order. The world records
  how many blocks were handed out, every call of \<^verbatim>\<open>efree\<close> in order, and how many
  allocation requests will still succeed (\<open>None\<close>: all of them), so that every
  \<^verbatim>\<open>if (!ptr)\<close> branch of the source is a branch of the model. A block is leaked when
  it was handed out and is not in \<open>frees\<close>; it is freed twice when it occurs twice there.

  A \<^verbatim>\<open>char*\<close> argument points into the caller's record (\<open>Caller\<close>), at a string literal
  of the program (\<open>Literal\<close>), or at a block of the heap (\<open>Scratch\<close>, with the text that
  was written into it).
\<close>

type_synonym addr = nat

datatype ptr = Caller string | Literal string | Scratch addr string

fun content :: "ptr \<Rightarrow> string" where
  "content (Caller s) = s"
| "content (Literal s) = s"
| "content (Scratch a s) = s"

text \<open>A heap array: its block, the element count requested, and the elements written so far.\<close>

record 'a carray =
  base :: addr
  capacity :: nat
  elems :: "'a list"

text \<open>The external executor's result object.\<close>

datatype 'd CommandResponse =
    Null
  | Int_resp int
  | Float 'd
  | String string
  | Array "'d CommandResponse list"

record 'd CommandResult =
  response :: "'d CommandResponse option"
  command_error :: "string option"

record ('d, 'b) world =
  next_addr :: addr
  alloc_budget :: "nat option"
  frees :: "addr list"
  invalid_frees :: "ptr list"
  freed_results :: "'d CommandResult list"
  batch :: 'b

definition emalloc :: "('d, 'b) world \<Rightarrow> addr option \<times> ('d, 'b) world" where
  "emalloc w =
     (case alloc_budget w of
        None \<Rightarrow> (Some (next_addr w), w\<lparr>next_addr := Suc (next_addr w)\<rparr>)
      | Some 0 \<Rightarrow> (None, w)
      | Some (Suc n) \<Rightarrow>
          (Some (next_addr w), w\<lparr>next_addr := Suc (next_addr w), alloc_budget := Some n\<rparr>))"

definition efree :: "addr \<Rightarrow> ('d, 'b) world \<Rightarrow> ('d, 'b) world" where
  "efree a w = w\<lparr>frees := frees w @ [a]\<rparr>"

text \<open>\<^verbatim>\<open>efree\<close> of a \<^verbatim>\<open>char*\<close>: a pointer that is not a heap block is logged apart.\<close>

fun efree_str :: "ptr \<Rightarrow> ('d, 'b) world \<Rightarrow> ('d, 'b) world" where
  "efree_str (Scratch a s) w = efree a w"
| "efree_str p w = w\<lparr>invalid_frees := invalid_frees w @ [p]\<rparr>"

text \<open>\<^verbatim>\<open>(T*) emalloc(n * sizeof(T))\<close>.\<close>

definition emalloc_array :: "nat \<Rightarrow> ('d, 'b) world \<Rightarrow> 'a carray option \<times> ('d, 'b) world" where
  "emalloc_array n w =
     (case emalloc w of
        (None, w') \<Rightarrow> (None, w')
      | (Some a, w') \<Rightarrow> (Some \<lparr>base = a, capacity = n, elems = []\<rparr>, w'))"

text \<open>\<^verbatim>\<open>if (p) efree(p)\<close> on an array pointer.\<close>

definition efree_array :: "'a carray option \<Rightarrow> ('d, 'b) world \<Rightarrow> ('d, 'b) world" where
  "efree_array p w = (case p of None \<Rightarrow> w | Some arr \<Rightarrow> efree (base arr) w)"

text \<open>\<^verbatim>\<open>(*args_out)[i] = x;\<close> at the next free index \<open>i\<close> (the builders write every
  array front to back, one element after the other).\<close>

definition put :: "'a \<Rightarrow> 'a carray \<Rightarrow> 'a carray" where
  "put x arr = arr\<lparr>elems := elems arr @ [x]\<rparr>"

text \<open>\<^verbatim>\<open>return arg_count;\<close> converts an \<^verbatim>\<open>unsigned long\<close> to the \<^verbatim>\<open>int\<close> result.\<close>

definition c_int :: "nat \<Rightarrow> int" where
  "c_int n = (int n + 2 ^ 31) mod 2 ^ 32 - 2 ^ 31"

subsection \<open>Formatting routines\<close>

text \<open>
  The texts produced by the routines that are not part of this file:
  \<^verbatim>\<open>double_to_string\<close>, \<^verbatim>\<open>long_to_string\<close>, the conversion inside \<^verbatim>\<open>zval_to_string_safe\<close>,
  and the engine's \<^verbatim>\<open>zval_get_double\<close>.
\<close>

record 'd formatters =
  fmt_double :: "'d \<Rightarrow> string"
  fmt_long :: "int \<Rightarrow> string"
  fmt_zval :: "'d zval \<Rightarrow> string"
  zval_get_double :: "'d zval \<Rightarrow> 'd"

text \<open>
  Modelled from the spec: \<^verbatim>\<open>double_to_string\<close> and \<^verbatim>\<open>long_to_string\<close> (declared
  \<^verbatim>\<open>extern\<close>, defined in \<^verbatim>\<open>command_response.c\<close>) format a number into a freshly
  allocated buffer; the callers test the result against \<^verbatim>\<open>NULL\<close>.
\<close>

definition double_to_string ::
  "'d formatters \<Rightarrow> 'd \<Rightarrow> ('d, 'b) world \<Rightarrow> ptr option \<times> ('d, 'b) world" where
  "double_to_string fm v w =
     (case emalloc w of
        (None, w') \<Rightarrow> (None, w')
      | (Some a, w') \<Rightarrow> (Some (Scratch a (fmt_double fm v)), w'))"

definition long_to_string ::
  "'d formatters \<Rightarrow> int \<Rightarrow> ('d, 'b) world \<Rightarrow> ptr option \<times> ('d, 'b) world" where
  "long_to_string fm v w =
     (case emalloc w of
        (None, w') \<Rightarrow> (None, w')
      | (Some a, w') \<Rightarrow> (Some (Scratch a (fmt_long fm v)), w'))"

text \<open>
  Modelled from the spec: \<^verbatim>\<open>zval_to_string_safe\<close> (not in this file) borrows the text
  of a value that is already a string (no allocation, \<^verbatim>\<open>need_free = 0\<close>) and formats
  any other value into a freshly allocated buffer (\<^verbatim>\<open>need_free = 1\<close>); \<^verbatim>\<open>NULL\<close> when the
  buffer cannot be obtained.
\<close>

definition zval_to_string_safe ::
  "'d formatters \<Rightarrow> 'd zval \<Rightarrow> ('d, 'b) world \<Rightarrow> ptr option \<times> bool \<times> ('d, 'b) world" where
  "zval_to_string_safe fm z w =
     (case z of
        ZString s \<Rightarrow> (Some (Caller s), False, w)
      | _ \<Rightarrow>
         (case emalloc w of
            (None, w') \<Rightarrow> (None, False, w')
          | (Some a, w') \<Rightarrow> (Some (Scratch a (fmt_zval fm z)), True, w')))"

text \<open>
  Modelled from the spec: \<^verbatim>\<open>free_allocated_strings(strings, count)\<close> (not in this file)
  frees each of the \<^verbatim>\<open>count\<close> ledgered strings; the ledger array itself is released by
  the dispatcher.
\<close>

definition free_allocated_strings :: "ptr carray \<Rightarrow> ('d, 'b) world \<Rightarrow> ('d, 'b) world" where
  "free_allocated_strings ledger w = fold efree_str (elems ledger) w"

subsection \<open>What a builder hands back\<close>

text \<open>
  The dispatcher's local variables after the builder call: the returned count, the two
  array pointers, the ledger array (\<^verbatim>\<open>allocated_count\<close> is the number of its elements;
  \<open>None\<close> for the distance builder, which has no ledger) and the world.
\<close>

record ('d, 'b) prepared =
  arg_count :: int
  arg_values :: "ptr carray option"
  arg_lens :: "nat carray option"
  allocated_strings :: "ptr carray option"
  world_after :: "('d, 'b) world"

text \<open>The arrays a builder is filling.\<close>

record slots =
  args_out :: "ptr carray"
  args_len_out :: "nat carray"
  ledger :: "ptr carray"

definition set_arg :: "ptr \<Rightarrow> slots \<Rightarrow> slots" where
  "set_arg p st = st\<lparr>args_out := put p (args_out st),
                      args_len_out := put (length (content p)) (args_len_out st)\<rparr>"

text \<open>\<^verbatim>\<open>(*allocated_strings)[(*allocated_count)++] = p;\<close>\<close>

definition ledger_add :: "ptr \<Rightarrow> slots \<Rightarrow> slots" where
  "ledger_add p st = st\<lparr>ledger := put p (ledger st)\<rparr>"

text \<open>\<^verbatim>\<open>return 0;\<close> from inside a builder, \<open>w\<close> being the world after its cleanup.\<close>

definition failed :: "slots \<Rightarrow> ('d, 'b) world \<Rightarrow> ('d, 'b) prepared" where
  "failed st w = \<lparr>arg_count = 0, arg_values = Some (args_out st),
                   arg_lens = Some (args_len_out st),
                   allocated_strings = Some (ledger st), world_after = w\<rparr>"

definition built :: "slots \<Rightarrow> ('d, 'b) world \<Rightarrow> ('d, 'b) prepared" where
  "built st w = \<lparr>arg_count = c_int (length (elems (args_out st))),
                  arg_values = Some (args_out st), arg_lens = Some (args_len_out st),
                  allocated_strings = Some (ledger st), world_after = w\<rparr>"

text \<open>\<^verbatim>\<open>efree(*args_out); efree(*args_len_out);\<close>\<close>

definition free_arrays :: "slots \<Rightarrow> ('d, 'b) world \<Rightarrow> ('d, 'b) world" where
  "free_arrays st w = efree (base (args_len_out st)) (efree (base (args_out st)) w)"

text \<open>The cleanup of a failed conversion: the ledgered strings, then both arrays.\<close>

definition cleanup_on_error :: "slots \<Rightarrow> ('d, 'b) world \<Rightarrow> ('d, 'b) world" where
  "cleanup_on_error st w = free_arrays st (free_allocated_strings (ledger st) w)"

text \<open>
  The opening of every builder: both arrays are requested; when either request failed
  the other block is released and the builder returns 0, the pointers staying in the
  out-parameters as they are.
\<close>

definition alloc_arg_arrays ::
  "nat \<Rightarrow> ptr carray option \<Rightarrow> ('d, 'b) world \<Rightarrow> ('d, 'b) prepared + (ptr carray \<times> nat carray \<times> ('d, 'b) world)" where
  "alloc_arg_arrays n led w =
     (case emalloc_array n w of (vs, w1) \<Rightarrow>
      case emalloc_array n w1 of (ls, w2) \<Rightarrow>
       (case (vs, ls) of
          (Some v, Some l) \<Rightarrow> Inr (v, l, w2)
        | _ \<Rightarrow> Inl \<lparr>arg_count = 0, arg_values = vs, arg_lens = ls, allocated_strings = led,
                    world_after = efree_array ls (efree_array vs w2)\<rparr>))"

text \<open>\<^verbatim>\<open>return 0;\<close> on a violated precondition: nothing was assigned or allocated.\<close>

definition rejected :: "ptr carray option \<Rightarrow> ('d, 'b) world \<Rightarrow> ('d, 'b) prepared" where
  "rejected led w = \<lparr>arg_count = 0, arg_values = None, arg_lens = None,
                      allocated_strings = led, world_after = w\<rparr>"

subsection \<open>The distance builder\<close>

text \<open>\<^verbatim>\<open>prepare_geo_dist_args\<close>.\<close>

definition prepare_geo_dist_args ::
  "'d geo_command_args_t option \<Rightarrow> ('d, 'b) world \<Rightarrow> ('d, 'b) prepared" where
  "prepare_geo_dist_args args w =
     (case args of
        None \<Rightarrow> rejected None w
      | Some a \<Rightarrow>
         (case (key a, src_member a, dst_member a) of
            (Some k, Some s, Some d) \<Rightarrow>
              (case alloc_arg_arrays (if unit a \<noteq> None then 4 else 3) None w of
                 Inl r \<Rightarrow> r
               | Inr (vs, ls, w') \<Rightarrow>
                  (let v3 = put (Caller d) (put (Caller s) (put (Caller k) vs));
                       l3 = put (length d) (put (length s) (put (length k) ls));
                       v4 = (case unit a of None \<Rightarrow> v3 | Some u \<Rightarrow> put (Caller u) v3);
                       l4 = (case unit a of None \<Rightarrow> l3 | Some u \<Rightarrow> put (length u) l3)
                   in \<lparr>arg_count = c_int (if unit a \<noteq> None then 4 else 3),
                       arg_values = Some v4, arg_lens = Some l4,
                       allocated_strings = None, world_after = w'\<rparr>))
          | _ \<Rightarrow> rejected None w))"

subsection \<open>The member-list and triplet builders\<close>

text \<open>
  The conversion loop of \<^verbatim>\<open>prepare_geo_members_args\<close> and \<^verbatim>\<open>prepare_geo_add_args\<close> (the
  two loops are the same text): each value is converted; a failed conversion runs the
  cleanup and leaves the loop with \<^verbatim>\<open>return 0\<close>; a converted value is stored at index
  \<open>i + 1\<close> and ledgered when \<^verbatim>\<open>need_free\<close> is set.
\<close>

fun convert_loop ::
  "'d formatters \<Rightarrow> 'd zval list \<Rightarrow> slots \<Rightarrow> ('d, 'b) world \<Rightarrow> bool \<times> slots \<times> ('d, 'b) world" where
  "convert_loop fm [] st w = (True, st, w)"
| "convert_loop fm (z # zs) st w =
     (case zval_to_string_safe fm z w of
        (None, need_free, w') \<Rightarrow> (False, st, cleanup_on_error st w')
      | (Some str_val, need_free, w') \<Rightarrow>
          convert_loop fm zs
            (if need_free then ledger_add str_val (set_arg str_val st) else set_arg str_val st) w')"

text \<open>
  \<^verbatim>\<open>prepare_geo_members_args\<close>. \<open>led\<close> is the ledger array the dispatcher allocated;
  \<^verbatim>\<open>*allocated_count = 0\<close> empties it.
\<close>

definition prepare_geo_members_args ::
  "'d formatters \<Rightarrow> 'd geo_command_args_t option \<Rightarrow> ptr carray \<Rightarrow> ('d, 'b) world
     \<Rightarrow> ('d, 'b) prepared" where
  "prepare_geo_members_args fm args led w =
     (case args of
        None \<Rightarrow> rejected (Some led) w
      | Some a \<Rightarrow>
         (case (key a, members a) of
            (Some k, Some ms) \<Rightarrow>
              if member_count a \<le> 0 then rejected (Some led) w
              else
               (case alloc_arg_arrays (1 + member_count a) (Some (led\<lparr>elems := []\<rparr>)) w of
                  Inl r \<Rightarrow> r
                | Inr (vs, ls, w1) \<Rightarrow>
                   (case convert_loop fm ms
                           (set_arg (Caller k)
                              \<lparr>args_out = vs, args_len_out = ls, ledger = led\<lparr>elems := []\<rparr>\<rparr>) w1 of
                      (False, st, w2) \<Rightarrow> failed st w2
                    | (True, st, w2) \<Rightarrow>
                        (built st w2)\<lparr>arg_count := c_int (1 + member_count a)\<rparr>))
          | _ \<Rightarrow> rejected (Some led) w))"

text \<open>\<^verbatim>\<open>prepare_geo_add_args\<close>.\<close>

definition prepare_geo_add_args ::
  "'d formatters \<Rightarrow> 'd geo_command_args_t option \<Rightarrow> ptr carray \<Rightarrow> ('d, 'b) world
     \<Rightarrow> ('d, 'b) prepared" where
  "prepare_geo_add_args fm args led w =
     (case args of
        None \<Rightarrow> rejected (Some led) w
      | Some a \<Rightarrow>
         (case (key a, geo_args a) of
            (Some k, Some gs) \<Rightarrow>
              if geo_args_count a < 3 \<or> geo_args_count a mod 3 \<noteq> 0 then rejected (Some led) w
              else
               (case alloc_arg_arrays (1 + geo_args_count a) (Some (led\<lparr>elems := []\<rparr>)) w of
                  Inl r \<Rightarrow> r
                | Inr (vs, ls, w1) \<Rightarrow>
                   (case convert_loop fm gs
                           (set_arg (Caller k)
                              \<lparr>args_out = vs, args_len_out = ls, ledger = led\<lparr>elems := []\<rparr>\<rparr>) w1 of
                      (False, st, w2) \<Rightarrow> failed st w2
                    | (True, st, w2) \<Rightarrow>
                        (built st w2)\<lparr>arg_count := c_int (1 + geo_args_count a)\<rparr>))
          | _ \<Rightarrow> rejected (Some led) w))"

subsection \<open>The search builders\<close>

text \<open>
  The blocks of \<^verbatim>\<open>prepare_geo_search_args\<close> and \<^verbatim>\<open>prepare_geo_search_store_args\<close>, in source
  order. The FROM, BY, COUNT and sort blocks are the same text in both builders. Each
  block that converts a number returns whether the builder goes on; when it does not,
  the block has run the cleanup the source runs at that \<^verbatim>\<open>return 0\<close>.
\<close>

text \<open>
  The FROM block. A string origin gives \<^verbatim>\<open>FROMMEMBER <member>\<close>; an array origin with
  elements at the indices 0 and 1 gives \<^verbatim>\<open>FROMLONLAT <lon> <lat>\<close>; any other origin
  writes nothing. When the longitude cannot be converted only the two arrays are
  released.
\<close>

definition from_block ::
  "'d formatters \<Rightarrow> 'd zval \<Rightarrow> slots \<Rightarrow> ('d, 'b) world \<Rightarrow> bool \<times> slots \<times> ('d, 'b) world" where
  "from_block fm f st w =
     (case f of
        ZString s \<Rightarrow> (True, set_arg (Caller s) (set_arg (Literal ''FROMMEMBER'') st), w)
      | ZArray ht \<Rightarrow>
         (case (zend_hash_index_find ht 0, zend_hash_index_find ht 1) of
            (Some lon, Some lat) \<Rightarrow>
              (let st1 = set_arg (Literal ''FROMLONLAT'') st in
               case double_to_string fm (zval_get_double fm lon) w of
                 (None, w1) \<Rightarrow> (False, st1, free_arrays st1 w1)
               | (Some lon_str, w1) \<Rightarrow>
                  (let st2 = ledger_add lon_str (set_arg lon_str st1) in
                   case double_to_string fm (zval_get_double fm lat) w1 of
                     (None, w2) \<Rightarrow> (False, st2, cleanup_on_error st2 w2)
                   | (Some lat_str, w2) \<Rightarrow>
                       (True, ledger_add lat_str (set_arg lat_str st2), w2)))
          | _ \<Rightarrow> (True, st, w))
      | _ \<Rightarrow> (True, st, w))"

text \<open>The BY block: \<^verbatim>\<open>BYRADIUS <radius> <unit>\<close> (\<^verbatim>\<open>by_radius\<close> was checked at entry).\<close>

definition by_block ::
  "'d formatters \<Rightarrow> 'd \<Rightarrow> string \<Rightarrow> slots \<Rightarrow> ('d, 'b) world \<Rightarrow> bool \<times> slots \<times> ('d, 'b) world" where
  "by_block fm radius u st w =
     (let st1 = set_arg (Literal ''BYRADIUS'') st in
      case double_to_string fm radius w of
        (None, w1) \<Rightarrow> (False, st1, cleanup_on_error st1 w1)
      | (Some radius_str, w1) \<Rightarrow>
          (True, set_arg (Caller u) (ledger_add radius_str (set_arg radius_str st1)), w1))"

text \<open>The WITH block (in the search builder only).\<close>

definition with_block :: "geo_with_options \<Rightarrow> slots \<Rightarrow> slots" where
  "with_block wo st =
     (let st1 = (if withcoord wo then set_arg (Literal ''WITHCOORD'') st else st);
          st2 = (if withdist wo then set_arg (Literal ''WITHDIST'') st1 else st1)
      in if withhash wo then set_arg (Literal ''WITHHASH'') st2 else st2)"

text \<open>The COUNT block: \<^verbatim>\<open>COUNT <n>\<close> and \<^verbatim>\<open>ANY\<close> when the count is positive.\<close>

definition count_block ::
  "'d formatters \<Rightarrow> geo_radius_options \<Rightarrow> slots \<Rightarrow> ('d, 'b) world
     \<Rightarrow> bool \<times> slots \<times> ('d, 'b) world" where
  "count_block fm ro st w =
     (if count ro > 0 then
        (let st1 = set_arg (Literal ''COUNT'') st in
         case long_to_string fm (count ro) w of
           (None, w1) \<Rightarrow> (False, st1, cleanup_on_error st1 w1)
         | (Some count_str, w1) \<Rightarrow>
            (let st2 = ledger_add count_str (set_arg count_str st1)
             in (True, if any ro then set_arg (Literal ''ANY'') st2 else st2, w1)))
      else (True, st, w))"

text \<open>The sort block: \<^verbatim>\<open>if (sort && sort_len > 0)\<close>.\<close>

definition sort_block :: "geo_radius_options \<Rightarrow> slots \<Rightarrow> slots" where
  "sort_block ro st =
     (case sort_tok ro of
        None \<Rightarrow> st
      | Some s \<Rightarrow> if length s > 0 then set_arg (Caller s) st else st)"

text \<open>The STOREDIST block (in the search-store builder only).\<close>

definition storedist_block :: "geo_radius_options \<Rightarrow> slots \<Rightarrow> slots" where
  "storedist_block ro st = (if store_dist ro then set_arg (Literal ''STOREDIST'') st else st)"

text \<open>\<^verbatim>\<open>prepare_geo_search_args\<close>; \<^verbatim>\<open>max_args = 15\<close>.\<close>

definition prepare_geo_search_args ::
  "'d formatters \<Rightarrow> 'd geo_command_args_t option \<Rightarrow> ptr carray \<Rightarrow> ('d, 'b) world
     \<Rightarrow> ('d, 'b) prepared" where
  "prepare_geo_search_args fm args led w =
     (case args of
        None \<Rightarrow> rejected (Some led) w
      | Some a \<Rightarrow>
         (case (key a, from_zv a, by_radius a, unit a) of
            (Some k, Some f, Some radius, Some u) \<Rightarrow>
              (case alloc_arg_arrays 15 (Some (led\<lparr>elems := []\<rparr>)) w of
                 Inl r \<Rightarrow> r
               | Inr (vs, ls, w0) \<Rightarrow>
                  (case from_block fm f
                          (set_arg (Caller k)
                             \<lparr>args_out = vs, args_len_out = ls, ledger = led\<lparr>elems := []\<rparr>\<rparr>) w0 of
                     (False, st1, w1) \<Rightarrow> failed st1 w1
                   | (True, st1, w1) \<Rightarrow>
                  (case by_block fm radius u st1 w1 of
                     (False, st2, w2) \<Rightarrow> failed st2 w2
                   | (True, st2, w2) \<Rightarrow>
                  (case count_block fm (radius_opts a)
                          (with_block (with_opts (radius_opts a)) st2) w2 of
                     (False, st3, w3) \<Rightarrow> failed st3 w3
                   | (True, st3, w3) \<Rightarrow> built (sort_block (radius_opts a) st3) w3))))
          | _ \<Rightarrow> rejected (Some led) w))"

text \<open>\<^verbatim>\<open>prepare_geo_search_store_args\<close>; \<^verbatim>\<open>max_args = 16\<close>.\<close>

definition prepare_geo_search_store_args ::
  "'d formatters \<Rightarrow> 'd geo_command_args_t option \<Rightarrow> ptr carray \<Rightarrow> ('d, 'b) world
     \<Rightarrow> ('d, 'b) prepared" where
  "prepare_geo_search_store_args fm args led w =
     (case args of
        None \<Rightarrow> rejected (Some led) w
      | Some a \<Rightarrow>
         (case (dest a, src a, from_zv a, by_radius a, unit a) of
            (Some d, Some s, Some f, Some radius, Some u) \<Rightarrow>
              (case alloc_arg_arrays 16 (Some (led\<lparr>elems := []\<rparr>)) w of
                 Inl r \<Rightarrow> r
               | Inr (vs, ls, w0) \<Rightarrow>
                  (case from_block fm f
                          (set_arg (Caller s) (set_arg (Caller d)
                             \<lparr>args_out = vs, args_len_out = ls, ledger = led\<lparr>elems := []\<rparr>\<rparr>)) w0 of
                     (False, st1, w1) \<Rightarrow> failed st1 w1
                   | (True, st1, w1) \<Rightarrow>
                  (case by_block fm radius u st1 w1 of
                     (False, st2, w2) \<Rightarrow> failed st2 w2
                   | (True, st2, w2) \<Rightarrow>
                  (case count_block fm (radius_opts a) st2 w2 of
                     (False, st3, w3) \<Rightarrow> failed st3 w3
                   | (True, st3, w3) \<Rightarrow>
                       built (storedist_block (radius_opts a) (sort_block (radius_opts a) st3)) w3))))
          | _ \<Rightarrow> rejected (Some led) w))"

section \<open>The dispatcher\<close>

datatype RequestType =
  GeoAdd | GeoDist | GeoHash | GeoPos | GeoSearch | GeoSearchStore | OtherRequest

text \<open>
  The connection object: the executor's client handle and the batch-mode flag. The
  batch accumulator that the object holds is the field \<open>batch\<close> of the world.
\<close>

record 'c valkey_glide_object =
  glide_client :: 'c
  is_in_batch_mode :: bool

text \<open>\<^verbatim>\<open>free_command_result\<close> releases the executor's result object.\<close>

definition free_command_result :: "'d CommandResult \<Rightarrow> ('d, 'b) world \<Rightarrow> ('d, 'b) world" where
  "free_command_result r w = w\<lparr>freed_results := freed_results w @ [r]\<rparr>"

text \<open>
  The \<^verbatim>\<open>switch\<close> on the command type: the ledger array is requested with the capacity
  the source computes, and the matching builder runs. \<open>Inl\<close> is a \<^verbatim>\<open>return 0\<close> from inside
  the \<^verbatim>\<open>switch\<close> (the ledger could not be obtained, or the command type is not a geo
  command).
\<close>

definition with_ledger ::
  "nat \<Rightarrow> (ptr carray \<Rightarrow> ('d, 'b) world \<Rightarrow> ('d, 'b) prepared) \<Rightarrow> ('d, 'b) world
     \<Rightarrow> ('d, 'b) world + ('d, 'b) prepared" where
  "with_ledger n builder w =
     (case emalloc_array n w of
        (None, w') \<Rightarrow> Inl w'
      | (Some led, w') \<Rightarrow> Inr (builder led w'))"

definition prepare_by_type ::
  "'d formatters \<Rightarrow> RequestType \<Rightarrow> 'd geo_command_args_t \<Rightarrow> ('d, 'b) world
     \<Rightarrow> ('d, 'b) world + ('d, 'b) prepared" where
  "prepare_by_type fm cmd_type a w =
     (case cmd_type of
        GeoAdd \<Rightarrow> with_ledger (geo_args_count a) (prepare_geo_add_args fm (Some a)) w
      | GeoDist \<Rightarrow> Inr (prepare_geo_dist_args (Some a) w)
      | GeoHash \<Rightarrow> with_ledger (member_count a) (prepare_geo_members_args fm (Some a)) w
      | GeoPos \<Rightarrow> with_ledger (member_count a) (prepare_geo_members_args fm (Some a)) w
      | GeoSearch \<Rightarrow> with_ledger 10 (prepare_geo_search_args fm (Some a)) w
      | GeoSearchStore \<Rightarrow> with_ledger 10 (prepare_geo_search_store_args fm (Some a)) w
      | OtherRequest \<Rightarrow> Inl w)"

text \<open>
  The release sequence that follows both the batch append and the synchronous
  execution: every ledgered string (\<^verbatim>\<open>for (i = 0; i < allocated_count; i++)\<close>), then the
  ledger array, the argument array and the length array, each when not \<^verbatim>\<open>NULL\<close>.
\<close>

definition free_ledgered :: "ptr carray option \<Rightarrow> ('d, 'b) world \<Rightarrow> ('d, 'b) world" where
  "free_ledgered led w = (case led of None \<Rightarrow> w | Some l \<Rightarrow> fold efree_str (elems l) w)"

definition free_scratch_arrays :: "('d, 'b) prepared \<Rightarrow> ('d, 'b) world \<Rightarrow> ('d, 'b) world" where
  "free_scratch_arrays r w =
     efree_array (arg_lens r) (efree_array (arg_values r) (efree_array (allocated_strings r) w))"

definition release_all :: "('d, 'b) prepared \<Rightarrow> ('d, 'b) world \<Rightarrow> ('d, 'b) world" where
  "release_all r w = free_scratch_arrays r (free_ledgered (allocated_strings r) w)"

text \<open>
  \<^verbatim>\<open>execute_geo_generic_command\<close>. The blocking executor \<open>execute_command\<close> and the batch
  accumulator's \<open>buffer_command_for_batch\<close> are external and are parameters; the
  processor is the function pointer \<open>process_result\<close>. The result is the returned
  status, the caller's \<open>return_value\<close> and the world.
\<close>

type_synonym ('d, 'b, 'o) geo_result_processor_t =
  "'d CommandResponse option \<Rightarrow> 'o \<Rightarrow> 'd zval \<Rightarrow> ('d, 'b) world \<Rightarrow> int \<times> 'd zval \<times> ('d, 'b) world"

definition execute_geo_generic_command ::
  "'d formatters
   \<Rightarrow> ('c \<Rightarrow> RequestType \<Rightarrow> int \<Rightarrow> ptr carray option \<Rightarrow> nat carray option \<Rightarrow> 'd CommandResult option)
   \<Rightarrow> ('c valkey_glide_object \<Rightarrow> RequestType \<Rightarrow> ptr carray option \<Rightarrow> nat carray option \<Rightarrow> int
        \<Rightarrow> 'o \<Rightarrow> ('d, 'b, 'o) geo_result_processor_t \<Rightarrow> 'b \<Rightarrow> int \<times> 'b)
   \<Rightarrow> 'c valkey_glide_object option \<Rightarrow> RequestType \<Rightarrow> 'd geo_command_args_t option \<Rightarrow> 'o
   \<Rightarrow> ('d, 'b, 'o) geo_result_processor_t \<Rightarrow> 'd zval \<Rightarrow> ('d, 'b) world
   \<Rightarrow> int \<times> 'd zval \<times> ('d, 'b) world" where
  "execute_geo_generic_command fm execute_command buffer_command_for_batch
       valkey_glide cmd_type args result_ptr process_result return_value w =
     (case (valkey_glide, args) of
        (Some vg, Some a) \<Rightarrow>
          (case prepare_by_type fm cmd_type a w of
             Inl w0 \<Rightarrow> (0, return_value, w0)
           | Inr r \<Rightarrow>
              if arg_count r \<le> 0 then
                (0, return_value, free_scratch_arrays r (world_after r))
              else if is_in_batch_mode vg then
                (case buffer_command_for_batch vg cmd_type (arg_values r) (arg_lens r)
                        (arg_count r) result_ptr process_result (batch (world_after r)) of
                   (status, b) \<Rightarrow>
                     (status, return_value, release_all r ((world_after r)\<lparr>batch := b\<rparr>)))
              else
                (let result = execute_command (glide_client vg) cmd_type (arg_count r)
                                (arg_values r) (arg_lens r);
                     w1 = release_all r (world_after r)
                 in case result of
                      None \<Rightarrow> (0, return_value, w1)
                    | Some res \<Rightarrow>
                       if command_error res \<noteq> None then
                         (0, return_value, free_command_result res w1)
                       else
                         (case process_result (response res) result_ptr return_value w1 of
                            (success, rv, w2) \<Rightarrow> (success, rv, free_command_result res w2))))
      | _ \<Rightarrow> (0, return_value, w))"

section \<open>Result processors\<close>

text \<open>
  Modelled from the spec: the declaration of \<^verbatim>\<open>CommandResponse\<close> is not in this file;
  the response tree is the tagged union of the kinds Null, Int, Float, String and
  Array (the datatype above). A processor returns its status, the new \<^verbatim>\<open>return_value\<close>
  and the world.
\<close>

text \<open>\<^verbatim>\<open>process_geo_int_result_async\<close>.\<close>

definition process_geo_int_result_async ::
  "'d CommandResponse option \<Rightarrow> 'o \<Rightarrow> 'd zval \<Rightarrow> ('d, 'b) world \<Rightarrow> int \<times> 'd zval \<times> ('d, 'b) world" where
  "process_geo_int_result_async resp output return_value w =
     (case resp of
        None \<Rightarrow> (0, ZLong 0, w)
      | Some (Int_resp n) \<Rightarrow> (1, ZLong n, w)
      | Some Null \<Rightarrow> (1, ZNull, w)
      | Some _ \<Rightarrow> (0, ZLong 0, w))"

text \<open>\<^verbatim>\<open>process_geo_double_result_async\<close>; \<open>atof\<close> is the C library's.\<close>

definition process_geo_double_result_async ::
  "(string \<Rightarrow> 'd) \<Rightarrow> 'd CommandResponse option \<Rightarrow> 'o \<Rightarrow> 'd zval \<Rightarrow> ('d, 'b) world
     \<Rightarrow> int \<times> 'd zval \<times> ('d, 'b) world" where
  "process_geo_double_result_async atof resp output return_value w =
     (case resp of
        None \<Rightarrow> (0, ZNull, w)
      | Some Null \<Rightarrow> (1, ZNull, w)
      | Some (String s) \<Rightarrow> (1, ZDouble (atof s), w)
      | Some (Float f) \<Rightarrow> (1, ZDouble f, w)
      | Some _ \<Rightarrow> (0, return_value, w))"

subsection \<open>Building arrays of the host language\<close>

text \<open>
  An array is the list of its (key, value) pairs in insertion order. \<^verbatim>\<open>add_next_index_*\<close>
  appends under the next free integer key; \<^verbatim>\<open>add_assoc_zval_ex\<close> stores under a string
  key, replacing the value in place when the key is there already. The engine's
  reading of a string key (decimal integers become integer keys) is the parameter
  \<open>symtable_key\<close>.
\<close>

definition next_free_element :: "(zkey \<times> 'v) list \<Rightarrow> int" where
  "next_free_element ht =
     fold (\<lambda>(k, v) n. case k of KInt i \<Rightarrow> max n (i + 1) | KStr s \<Rightarrow> n) ht 0"

definition add_next_index :: "'d zval \<Rightarrow> 'd zval \<Rightarrow> 'd zval" where
  "add_next_index v arr =
     (case arr of ZArray ht \<Rightarrow> ZArray (ht @ [(KInt (next_free_element ht), v)]) | _ \<Rightarrow> arr)"

fun hash_update :: "zkey \<Rightarrow> 'v \<Rightarrow> (zkey \<times> 'v) list \<Rightarrow> (zkey \<times> 'v) list" where
  "hash_update k v [] = [(k, v)]"
| "hash_update k v ((k', v') # ht) =
     (if k' = k then (k, v) # ht else (k', v') # hash_update k v ht)"

definition add_assoc_zval_ex :: "(string \<Rightarrow> zkey) \<Rightarrow> 'd zval \<Rightarrow> string \<Rightarrow> 'd zval \<Rightarrow> 'd zval" where
  "add_assoc_zval_ex symtable_key arr name v =
     (case arr of ZArray ht \<Rightarrow> ZArray (hash_update (symtable_key name) v ht) | _ \<Rightarrow> arr)"

subsection \<open>The search-result processor\<close>

text \<open>
  A coordinate or distance leaf: a String is parsed with \<open>atof\<close>, a Float is taken as
  it is, any other leaf adds nothing.
\<close>

definition add_double_leaf :: "(string \<Rightarrow> 'd) \<Rightarrow> 'd CommandResponse \<Rightarrow> 'd zval \<Rightarrow> 'd zval" where
  "add_double_leaf atof leaf arr =
     (case leaf of
        String s \<Rightarrow> add_next_index (ZDouble (atof s)) arr
      | Float f \<Rightarrow> add_next_index (ZDouble f) arr
      | _ \<Rightarrow> arr)"

text \<open>
  \<^verbatim>\<open>inner_element = &element->array_value[1]\<close> is not checked against the element's
  length or kind. The read of \<^verbatim>\<open>inner_element->array_value_len\<close> has no value in the
  model (\<open>None\<close>) when the element has no second child or the child is not an Array.
\<close>

definition inner_values :: "'d CommandResponse option \<Rightarrow> 'd CommandResponse list option" where
  "inner_values inner = (case inner of Some (Array xs) \<Rightarrow> Some xs | _ \<Rightarrow> None)"

text \<open>
  The attributes of one member: distance, then hash, then coordinates, each read only
  when its flag is set and \<^verbatim>\<open>idx\<close> is below the number of attributes. \<^verbatim>\<open>&&\<close> does not read
  the length when the flag is clear.
\<close>

definition member_attrs ::
  "(string \<Rightarrow> 'd) \<Rightarrow> geo_with_options \<Rightarrow> 'd CommandResponse option \<Rightarrow> 'd zval option" where
  "member_attrs atof sd inner =
     (if \<not> withdist sd \<and> \<not> withhash sd \<and> \<not> withcoord sd then Some (ZArray [])
      else
       (case inner_values inner of
          None \<Rightarrow> None
        | Some xs \<Rightarrow>
           (let (d1, i1) =
                  (if withdist sd \<and> 0 < length xs
                   then (add_double_leaf atof (xs ! 0) (ZArray []), 1) else (ZArray [], 0));
                (d2, i2) =
                  (if withhash sd \<and> i1 < length xs
                   then ((case xs ! i1 of Int_resp h \<Rightarrow> add_next_index (ZLong h) d1 | _ \<Rightarrow> d1),
                         i1 + 1)
                   else (d1, i1))
            in Some
                (if withcoord sd \<and> i2 < length xs
                 then (case xs ! i2 of
                         Array [lon, lat] \<Rightarrow>
                           add_next_index
                             (add_double_leaf atof lat (add_double_leaf atof lon (ZArray []))) d2
                       | _ \<Rightarrow> d2)
                 else d2))))"

text \<open>One element of the response: an Array whose first child is a String is a member.\<close>

definition search_element ::
  "(string \<Rightarrow> 'd) \<Rightarrow> (string \<Rightarrow> zkey) \<Rightarrow> geo_with_options \<Rightarrow> 'd CommandResponse \<Rightarrow> 'd zval
     \<Rightarrow> 'd zval option" where
  "search_element atof symtable_key sd element return_value =
     (case element of
        Array (String member_name # rest) \<Rightarrow>
          (case member_attrs atof sd (case rest of [] \<Rightarrow> None | x # _ \<Rightarrow> Some x) of
             None \<Rightarrow> None
           | Some member_data \<Rightarrow>
               Some (add_assoc_zval_ex symtable_key return_value member_name member_data))
      | _ \<Rightarrow> Some return_value)"

fun search_loop ::
  "(string \<Rightarrow> 'd) \<Rightarrow> (string \<Rightarrow> zkey) \<Rightarrow> geo_with_options \<Rightarrow> 'd CommandResponse list \<Rightarrow> 'd zval
     \<Rightarrow> 'd zval option" where
  "search_loop atof symtable_key sd [] return_value = Some return_value"
| "search_loop atof symtable_key sd (e # es) return_value =
     (case search_element atof symtable_key sd e return_value of
        None \<Rightarrow> None
      | Some rv \<Rightarrow> search_loop atof symtable_key sd es rv)"

text \<open>
  \<^verbatim>\<open>process_geo_search_result_async\<close>. \<open>output\<close> is the heap block holding the three
  flags, which the processor frees. \<open>to_zval\<close> is the generic conversion
  \<^verbatim>\<open>command_response_to_zval(response, return_value, COMMAND_RESPONSE_NOT_ASSOSIATIVE, false)\<close>,
  which is not in this file. The result is \<open>None\<close> where the source reads a response
  node that is not there.
\<close>

definition process_geo_search_result_async ::
  "(string \<Rightarrow> 'd) \<Rightarrow> (string \<Rightarrow> zkey) \<Rightarrow> ('d CommandResponse \<Rightarrow> 'd zval \<Rightarrow> int \<times> 'd zval)
   \<Rightarrow> 'd CommandResponse option \<Rightarrow> (addr \<times> geo_with_options) option \<Rightarrow> 'd zval \<Rightarrow> ('d, 'b) world
   \<Rightarrow> (int \<times> 'd zval \<times> ('d, 'b) world) option" where
  "process_geo_search_result_async atof symtable_key to_zval resp output return_value w =
     (case output of
        None \<Rightarrow> Some (0, ZArray [], w)
      | Some (a, search_data) \<Rightarrow>
         (case resp of
            None \<Rightarrow> Some (0, ZArray [], efree a w)
          | Some r \<Rightarrow>
             if \<not> withcoord search_data \<and> \<not> withdist search_data \<and> \<not> withhash search_data
             then (case to_zval r return_value of (status, rv) \<Rightarrow> Some (status, rv, efree a w))
             else
              (case r of
                 Array es \<Rightarrow>
                   (case search_loop atof symtable_key search_data es (ZArray []) of
                      None \<Rightarrow> None
                    | Some rv \<Rightarrow> Some (1, rv, efree a w))
               | _ \<Rightarrow> Some (0, ZArray [], efree a w))))"

section \<open>Token streams in closed form\<close>

text \<open>
  The streams the builders are compared with. A stream is the list of the pointers
  written into the argument array; the length array then holds the lengths of their
  texts and the ledger the \<open>Scratch\<close> pointers among them, in the same order.
\<close>

definition is_scratch :: "ptr \<Rightarrow> bool" where
  "is_scratch p = (case p of Scratch a s \<Rightarrow> True | _ \<Rightarrow> False)"

definition write_tokens :: "ptr list \<Rightarrow> slots \<Rightarrow> slots" where
  "write_tokens ps st =
     \<lparr>args_out = (args_out st)\<lparr>elems := elems (args_out st) @ ps\<rparr>,
      args_len_out = (args_len_out st)\<lparr>elems := elems (args_len_out st) @ map (length \<circ> content) ps\<rparr>,
      ledger = (ledger st)\<lparr>elems := elems (ledger st) @ filter is_scratch ps\<rparr>\<rparr>"

text \<open>The arrays as the builder finds them: two fresh blocks and the emptied ledger.\<close>

definition fresh_slots :: "nat \<Rightarrow> ptr carray \<Rightarrow> addr \<Rightarrow> slots" where
  "fresh_slots cap led n =
     \<lparr>args_out = \<lparr>base = n, capacity = cap, elems = []\<rparr>,
      args_len_out = \<lparr>base = Suc n, capacity = cap, elems = []\<rparr>,
      ledger = led\<lparr>elems := []\<rparr>\<rparr>"

text \<open>
  The values of a member list or triplet list as arguments: a string is borrowed, any
  other value is the text in the next fresh block (\<open>n\<close> is the first free address).
\<close>

fun converted :: "'d formatters \<Rightarrow> addr \<Rightarrow> 'd zval list \<Rightarrow> ptr list" where
  "converted fm n [] = []"
| "converted fm n (z # zs) =
     (case z of
        ZString s \<Rightarrow> Caller s # converted fm n zs
      | _ \<Rightarrow> Scratch n (fmt_zval fm z) # converted fm (Suc n) zs)"

text \<open>The tokens of the origin, and the number of blocks they take.\<close>

definition origin_tokens :: "'d formatters \<Rightarrow> 'd zval \<Rightarrow> addr \<Rightarrow> ptr list" where
  "origin_tokens fm f n =
     (case f of
        ZString name \<Rightarrow> [Literal ''FROMMEMBER'', Caller name]
      | ZArray ht \<Rightarrow>
         (case (zend_hash_index_find ht 0, zend_hash_index_find ht 1) of
            (Some lon, Some lat) \<Rightarrow>
              [Literal ''FROMLONLAT'', Scratch n (fmt_double fm (zval_get_double fm lon)),
               Scratch (Suc n) (fmt_double fm (zval_get_double fm lat))]
          | _ \<Rightarrow> [])
      | _ \<Rightarrow> [])"

definition origin_allocs :: "'d zval \<Rightarrow> nat" where
  "origin_allocs f =
     (case f of
        ZArray ht \<Rightarrow>
          (case (zend_hash_index_find ht 0, zend_hash_index_find ht 1) of
             (Some lon, Some lat) \<Rightarrow> 2 | _ \<Rightarrow> 0)
      | _ \<Rightarrow> 0)"

text \<open>An origin that is there but is neither a string nor a coordinate pair.\<close>

definition malformed_origin :: "'d zval \<Rightarrow> bool" where
  "malformed_origin f =
     (case f of
        ZString name \<Rightarrow> False
      | ZArray ht \<Rightarrow> zend_hash_index_find ht 0 = None \<or> zend_hash_index_find ht 1 = None
      | _ \<Rightarrow> True)"

text \<open>
  The optional tokens in the words of the specification: each WITH token when its
  flag is set, in the order WITHCOORD, WITHDIST, WITHHASH; COUNT with its number, and
  ANY after it, when a positive count was asked for; the sort token when one is given;
  STOREDIST when the flag is set.
\<close>

definition with_tokens :: "geo_with_options \<Rightarrow> ptr list" where
  "with_tokens wo =
     (if withcoord wo then [Literal ''WITHCOORD''] else []) @
     (if withdist wo then [Literal ''WITHDIST''] else []) @
     (if withhash wo then [Literal ''WITHHASH''] else [])"

definition count_tokens :: "'d formatters \<Rightarrow> geo_radius_options \<Rightarrow> addr \<Rightarrow> ptr list" where
  "count_tokens fm ro n =
     (if 0 < count ro
      then [Literal ''COUNT'', Scratch n (fmt_long fm (count ro))] @
           (if any ro then [Literal ''ANY''] else [])
      else [])"

definition sort_tokens :: "geo_radius_options \<Rightarrow> ptr list" where
  "sort_tokens ro =
     (case sort_tok ro of None \<Rightarrow> [] | Some s \<Rightarrow> if s = [] then [] else [Caller s])"

definition storedist_tokens :: "geo_radius_options \<Rightarrow> ptr list" where
  "storedist_tokens ro = (if store_dist ro then [Literal ''STOREDIST''] else [])"

text \<open>
  What follows the key(s): origin, \<^verbatim>\<open>BYRADIUS <radius> <unit>\<close>, the WITH tokens (\<open>None\<close>:
  the builder has no WITH block), COUNT, sort. \<open>n\<close> is the first free address.
\<close>

definition search_tail ::
  "'d formatters \<Rightarrow> 'd zval \<Rightarrow> 'd \<Rightarrow> string \<Rightarrow> geo_with_options option \<Rightarrow> geo_radius_options
     \<Rightarrow> addr \<Rightarrow> ptr list" where
  "search_tail fm f r u wo ro n =
     origin_tokens fm f n @
     [Literal ''BYRADIUS'', Scratch (n + origin_allocs f) (fmt_double fm r), Caller u] @
     (case wo of None \<Rightarrow> [] | Some x \<Rightarrow> with_tokens x) @
     count_tokens fm ro (Suc (n + origin_allocs f)) @
     sort_tokens ro"

section \<open>Released blocks\<close>

text \<open>
  The blocks of the ledgered strings, the block of an array pointer (none for \<^verbatim>\<open>NULL\<close>),
  and the ledger of a builder result (empty when there is no ledger array).
\<close>

definition scratch_addrs :: "ptr list \<Rightarrow> addr list" where
  "scratch_addrs ps = concat (map (\<lambda>p. case p of Scratch a s \<Rightarrow> [a] | _ \<Rightarrow> []) ps)"

definition array_addr :: "'a carray option \<Rightarrow> addr list" where
  "array_addr p = (case p of None \<Rightarrow> [] | Some arr \<Rightarrow> [base arr])"

definition ledgered :: "('d, 'b) prepared \<Rightarrow> ptr list" where
  "ledgered r = (case allocated_strings r of None \<Rightarrow> [] | Some l \<Rightarrow> elems l)"

text \<open>Every pointer in the ledger is a block of the heap.\<close>

definition ledger_ok :: "slots \<Rightarrow> bool" where
  "ledger_ok st = list_all is_scratch (elems (ledger st))"

section \<open>The search response in the words of the specification\<close>

text \<open>
  A found member as the specification describes the response: the element
  \<open>[memberName, [attributes]]\<close> carries, in this order, the distance when WITHDIST was
  asked for, the hash when WITHHASH was, and the coordinate pair when WITHCOORD was. A
  distance or coordinate arrives as text or as a Float leaf. \<open>member_response\<close> is the
  response element of a member, \<open>member_tuple\<close> the attribute tuple of the output (a
  list of the host language, with the keys 0, 1, ...).
\<close>

datatype 'd number_leaf = AsText string | AsFloat 'd

record 'd found_member =
  m_name :: string
  m_dist :: "'d number_leaf"
  m_hash :: int
  m_lon :: "'d number_leaf"
  m_lat :: "'d number_leaf"

fun leaf_response :: "'d number_leaf \<Rightarrow> 'd CommandResponse" where
  "leaf_response (AsText s) = String s"
| "leaf_response (AsFloat f) = Float f"

fun leaf_value :: "(string \<Rightarrow> 'd) \<Rightarrow> 'd number_leaf \<Rightarrow> 'd zval" where
  "leaf_value atof (AsText s) = ZDouble (atof s)"
| "leaf_value atof (AsFloat f) = ZDouble f"

definition member_response :: "geo_with_options \<Rightarrow> 'd found_member \<Rightarrow> 'd CommandResponse" where
  "member_response sd m =
     Array [String (m_name m),
            Array ((if withdist sd then [leaf_response (m_dist m)] else []) @
                   (if withhash sd then [Int_resp (m_hash m)] else []) @
                   (if withcoord sd
                    then [Array [leaf_response (m_lon m), leaf_response (m_lat m)]] else []))]"

definition php_list :: "'d zval list \<Rightarrow> 'd zval" where
  "php_list vs = ZArray (map (\<lambda>(i, v). (KInt (int i), v)) (enumerate 0 vs))"

definition member_tuple :: "(string \<Rightarrow> 'd) \<Rightarrow> geo_with_options \<Rightarrow> 'd found_member \<Rightarrow> 'd zval" where
  "member_tuple atof sd m =
     php_list ((if withdist sd then [leaf_value atof (m_dist m)] else []) @
               (if withhash sd then [ZLong (m_hash m)] else []) @
               (if withcoord sd
                then [php_list [leaf_value atof (m_lon m), leaf_value atof (m_lat m)]] else []))"

section \<open>Sample inputs\<close>

text \<open>
  An instance of the external routines for running the model: a double is carried as
  its decimal text, an integer is printed in decimal.
\<close>

function show_nat :: "nat \<Rightarrow> string" where
  "show_nat n =
     (if n < 10 then [''0123456789'' ! n]
      else show_nat (n div 10) @ [''0123456789'' ! (n mod 10)])"
  by pat_completeness auto
termination
  by (relation "measure id") auto

definition text_formatters :: "string formatters" where
  "text_formatters =
     \<lparr>fmt_double = (\<lambda>s. s),
      fmt_long = (\<lambda>i. show_nat (nat i)),
      fmt_zval = (\<lambda>z. case z of ZDouble s \<Rightarrow> s | ZLong i \<Rightarrow> show_nat (nat i) | _ \<Rightarrow> []),
      zval_get_double =
        (\<lambda>z. case z of ZDouble s \<Rightarrow> s | ZString s \<Rightarrow> s | ZLong i \<Rightarrow> show_nat (nat i)
              | _ \<Rightarrow> ''0'')\<rparr>"

text \<open>\<open>atof\<close> for doubles carried as text.\<close>

definition keep_text :: "string \<Rightarrow> string" where
  "keep_text s = s"

text \<open>A world in which nothing was allocated yet; the batch accumulator is a counter.\<close>

definition empty_world :: "(string, nat) world" where
  "empty_world =
     \<lparr>next_addr = 0, alloc_budget = None, frees = [], invalid_frees = [],
      freed_results = [], batch = 0\<rparr>"

definition no_opts :: geo_radius_options where
  "no_opts =
     \<lparr>with_opts = \<lparr>withcoord = False, withdist = False, withhash = False\<rparr>,
      count = 0, any = False, sort_tok = None, store_dist = False\<rparr>"

definition no_args :: "string geo_command_args_t" where
  "no_args =
     \<lparr>key = None, members = None, src_member = None, dst_member = None, unit = None,
      geo_args = None, from_zv = None, by_radius = None, radius_opts = no_opts,
      dest = None, src = None\<rparr>"

text \<open>
  The ledger array the dispatcher hands to a search builder in \<open>empty_world\<close>, and the
  world after its allocation.
\<close>

definition ledger0 :: "ptr carray" where
  "ledger0 = \<lparr>base = 0, capacity = 10, elems = []\<rparr>"

definition world1 :: "(string, nat) world" where
  "world1 = empty_world\<lparr>next_addr := 1\<rparr>"

text \<open>
  Builder inputs: a search around the member Palermo with distances (the third scenario
  of the specification), a search around a coordinate pair with every option set, the
  same two as store commands, a search whose origin is the integer 5, the member list
  a, b and the triplet of Palermo.
\<close>

definition palermo_search :: "string geo_command_args_t" where
  "palermo_search =
     no_args\<lparr>key := Some ''k'', from_zv := Some (ZString ''Palermo''),
             by_radius := Some ''200'', unit := Some ''km'',
             radius_opts := no_opts\<lparr>with_opts :=
               \<lparr>withcoord = False, withdist = True, withhash = False\<rparr>\<rparr>\<rparr>"

definition lonlat_search :: "string geo_command_args_t" where
  "lonlat_search =
     no_args\<lparr>key := Some ''k'',
             from_zv := Some (ZArray [(KInt 0, ZDouble ''15''), (KInt 1, ZDouble ''37'')]),
             by_radius := Some ''200'', unit := Some ''km'',
             radius_opts :=
               \<lparr>with_opts = \<lparr>withcoord = True, withdist = True, withhash = True\<rparr>,
                count = 10, any = True, sort_tok = Some ''ASC'', store_dist = False\<rparr>\<rparr>"

definition palermo_store :: "string geo_command_args_t" where
  "palermo_store = palermo_search\<lparr>dest := Some ''dst'', src := Some ''src''\<rparr>"

definition lonlat_store :: "string geo_command_args_t" where
  "lonlat_store =
     lonlat_search\<lparr>dest := Some ''dst'', src := Some ''src'',
                   radius_opts := (radius_opts lonlat_search)\<lparr>store_dist := True\<rparr>\<rparr>"

definition odd_search :: "string geo_command_args_t" where
  "odd_search =
     no_args\<lparr>key := Some ''k'', dest := Some ''dst'', src := Some ''src'',
             from_zv := Some (ZLong 5), by_radius := Some ''200'', unit := Some ''km''\<rparr>"

definition ab_members :: "string geo_command_args_t" where
  "ab_members = no_args\<lparr>key := Some ''k'', members := Some [ZString ''a'', ZString ''b'']\<rparr>"

definition palermo_add :: "string geo_command_args_t" where
  "palermo_add =
     no_args\<lparr>key := Some ''geo'',
             geo_args := Some [ZDouble ''13.361389'', ZDouble ''38.115556'', ZString ''Palermo'']\<rparr>"

text \<open>
  Inputs and collaborators of the dispatcher: a member list of two integers, a
  connection in either mode, an executor that gives a fixed reply, an accumulator that
  counts the appended commands, a generic conversion for arrays of names, two found
  members, two replies, and what the search builder hands back for \<open>palermo_search\<close>.
\<close>

definition two_longs :: "string geo_command_args_t" where
  "two_longs = no_args\<lparr>key := Some ''k'', members := Some [ZLong 1, ZLong 2]\<rparr>"

definition sync_client :: "unit valkey_glide_object" where
  "sync_client = \<lparr>glide_client = (), is_in_batch_mode = False\<rparr>"

definition batch_client :: "unit valkey_glide_object" where
  "batch_client = \<lparr>glide_client = (), is_in_batch_mode = True\<rparr>"

definition replies ::
  "string CommandResult option \<Rightarrow> unit \<Rightarrow> RequestType \<Rightarrow> int \<Rightarrow> ptr carray option \<Rightarrow> nat carray option
     \<Rightarrow> string CommandResult option" where
  "replies res c t n vs ls = res"

definition count_commands ::
  "unit valkey_glide_object \<Rightarrow> RequestType \<Rightarrow> ptr carray option \<Rightarrow> nat carray option \<Rightarrow> int \<Rightarrow> unit
     \<Rightarrow> (string, nat, unit) geo_result_processor_t \<Rightarrow> nat \<Rightarrow> int \<times> nat" where
  "count_commands vg t vs ls n out p b = (1, Suc b)"

definition plain_names :: "string CommandResponse \<Rightarrow> string zval \<Rightarrow> int \<times> string zval" where
  "plain_names resp rv =
     (case resp of
        Array xs \<Rightarrow> (1, php_list (concat (map (\<lambda>x. case x of String s \<Rightarrow> [ZString s] | _ \<Rightarrow> []) xs)))
      | _ \<Rightarrow> (0, rv))"

definition palermo_found :: "string found_member" where
  "palermo_found =
     \<lparr>m_name = ''Palermo'', m_dist = AsText ''190.4424'', m_hash = 3479099956230698,
      m_lon = AsText ''13.361389'', m_lat = AsText ''38.115556''\<rparr>"

definition catania_found :: "string found_member" where
  "catania_found =
     \<lparr>m_name = ''Catania'', m_dist = AsFloat ''56.4413'', m_hash = 3479447370796909,
      m_lon = AsFloat ''15.087269'', m_lat = AsFloat ''37.502669''\<rparr>"

definition int_reply :: "string CommandResult" where
  "int_reply = \<lparr>response = Some (Int_resp 2), command_error = None\<rparr>"

definition error_reply :: "string CommandResult" where
  "error_reply = \<lparr>response = None, command_error = Some ''ERR''\<rparr>"

definition palermo_prepared :: "(string, nat) prepared" where
  "palermo_prepared =
     \<lparr>arg_count = 7,
      arg_values = Some \<lparr>base = 1, capacity = 15,
         elems = [Caller ''k'', Literal ''FROMMEMBER'', Caller ''Palermo'', Literal ''BYRADIUS'',
                  Scratch 3 ''200'', Caller ''km'', Literal ''WITHDIST'']\<rparr>,
      arg_lens = Some \<lparr>base = 2, capacity = 15, elems = [1, 10, 7, 8, 3, 2, 8]\<rparr>,
      allocated_strings = Some \<lparr>base = 0, capacity = 10, elems = [Scratch 3 ''200'']\<rparr>,
      world_after = empty_world\<lparr>next_addr := 4\<rparr>\<rparr>"

section \<open>Properties\<close>

subsection \<open>Allocation when no request fails\<close>

lemma emalloc_unlimited:
  "alloc_budget w = None \<Longrightarrow>
   emalloc w = (Some (next_addr w), w\<lparr>next_addr := Suc (next_addr w)\<rparr>)"
  by (simp add: emalloc_def)

lemma c_int_small: "n < 2 ^ 31 \<Longrightarrow> c_int n = int n"
  by (simp add: c_int_def)

lemma alloc_arg_arrays_unlimited:
  "alloc_budget w = None \<Longrightarrow>
   alloc_arg_arrays n led w =
     Inr (\<lparr>base = next_addr w, capacity = n, elems = []\<rparr>,
          \<lparr>base = Suc (next_addr w), capacity = n, elems = []\<rparr>,
          w\<lparr>next_addr := Suc (Suc (next_addr w))\<rparr>)"
  by (simp add: alloc_arg_arrays_def emalloc_array_def emalloc_unlimited)

lemma double_to_string_unlimited:
  "alloc_budget w = None \<Longrightarrow>
   double_to_string fm v w =
     (Some (Scratch (next_addr w) (fmt_double fm v)), w\<lparr>next_addr := Suc (next_addr w)\<rparr>)"
  by (simp add: double_to_string_def emalloc_unlimited)

lemma long_to_string_unlimited:
  "alloc_budget w = None \<Longrightarrow>
   long_to_string fm v w =
     (Some (Scratch (next_addr w) (fmt_long fm v)), w\<lparr>next_addr := Suc (next_addr w)\<rparr>)"
  by (simp add: long_to_string_def emalloc_unlimited)

lemma zval_to_string_safe_unlimited:
  "alloc_budget w = None \<Longrightarrow>
   zval_to_string_safe fm z w =
     (case z of
        ZString s \<Rightarrow> (Some (Caller s), False, w)
      | _ \<Rightarrow> (Some (Scratch (next_addr w) (fmt_zval fm z)), True,
              w\<lparr>next_addr := Suc (next_addr w)\<rparr>))"
  by (simp add: zval_to_string_safe_def emalloc_unlimited split: zval.splits)

subsection \<open>The builders in closed form\<close>

lemma is_scratch_simps [simp]:
  "is_scratch (Scratch a s)" "\<not> is_scratch (Caller s)" "\<not> is_scratch (Literal s)"
  by (simp_all add: is_scratch_def)

lemma write_tokens_nil [simp]: "write_tokens [] st = st"
  by (simp add: write_tokens_def)

lemma write_tokens_append: "write_tokens ps (write_tokens qs st) = write_tokens (qs @ ps) st"
  by (simp add: write_tokens_def)

lemma set_arg_write: "\<not> is_scratch p \<Longrightarrow> set_arg p st = write_tokens [p] st"
  by (simp add: set_arg_def write_tokens_def put_def)

lemma ledger_add_write: "is_scratch p \<Longrightarrow> ledger_add p (set_arg p st) = write_tokens [p] st"
  by (simp add: set_arg_def ledger_add_def write_tokens_def put_def)

lemma origin_scratch_count:
  "length (filter is_scratch (origin_tokens fm f n)) = origin_allocs f"
  by (simp add: origin_tokens_def origin_allocs_def split: zval.splits option.splits)

lemma count_scratch_count:
  "length (filter is_scratch (count_tokens fm ro n)) = (if 0 < count ro then 1 else 0)"
  by (simp add: count_tokens_def)

lemma from_block_unlimited:
  "alloc_budget w = None \<Longrightarrow>
   from_block fm f st w =
     (True, write_tokens (origin_tokens fm f (next_addr w)) st,
      w\<lparr>next_addr := next_addr w + origin_allocs f\<rparr>)"
  by (simp add: from_block_def origin_tokens_def origin_allocs_def double_to_string_unlimited
      set_arg_write ledger_add_write write_tokens_append Let_def
      split: zval.splits option.splits)

lemma by_block_unlimited:
  "alloc_budget w = None \<Longrightarrow>
   by_block fm r u st w =
     (True,
      write_tokens [Literal ''BYRADIUS'', Scratch (next_addr w) (fmt_double fm r), Caller u] st,
      w\<lparr>next_addr := Suc (next_addr w)\<rparr>)"
  by (simp add: by_block_def double_to_string_unlimited set_arg_write
      ledger_add_write write_tokens_append Let_def)

lemma with_block_write: "with_block wo st = write_tokens (with_tokens wo) st"
  by (simp add: with_block_def with_tokens_def set_arg_write write_tokens_append Let_def)

lemma count_block_unlimited:
  "alloc_budget w = None \<Longrightarrow>
   count_block fm ro st w =
     (True, write_tokens (count_tokens fm ro (next_addr w)) st,
      w\<lparr>next_addr := next_addr w + (if 0 < count ro then 1 else 0)\<rparr>)"
  by (simp add: count_block_def count_tokens_def long_to_string_unlimited set_arg_write
      ledger_add_write write_tokens_append Let_def)

lemma sort_block_write: "sort_block ro st = write_tokens (sort_tokens ro) st"
  by (simp add: sort_block_def sort_tokens_def set_arg_write split: option.splits)

lemma storedist_block_write: "storedist_block ro st = write_tokens (storedist_tokens ro) st"
  by (simp add: storedist_block_def storedist_tokens_def set_arg_write)

lemma search_args_unlimited:
  assumes "key a = Some k" "from_zv a = Some f" "by_radius a = Some r" "unit a = Some u"
    and "alloc_budget w = None"
  shows "prepare_geo_search_args fm (Some a) led w =
     built (write_tokens
              (Caller k # search_tail fm f r u (Some (with_opts (radius_opts a))) (radius_opts a)
                            (Suc (Suc (next_addr w))))
              (fresh_slots 15 led (next_addr w)))
       (w\<lparr>next_addr := Suc (Suc (Suc (next_addr w + origin_allocs f +
                           (if 0 < count (radius_opts a) then 1 else 0))))\<rparr>)"
  using assms
  by (simp add: prepare_geo_search_args_def alloc_arg_arrays_unlimited from_block_unlimited
      by_block_unlimited with_block_write count_block_unlimited sort_block_write
      set_arg_write write_tokens_append search_tail_def fresh_slots_def)

lemma search_store_args_unlimited:
  assumes "dest a = Some d" "src a = Some s" "from_zv a = Some f" "by_radius a = Some r"
    "unit a = Some u" and "alloc_budget w = None"
  shows "prepare_geo_search_store_args fm (Some a) led w =
     built (write_tokens
              (Caller d # Caller s #
               search_tail fm f r u None (radius_opts a) (Suc (Suc (next_addr w))) @
               storedist_tokens (radius_opts a))
              (fresh_slots 16 led (next_addr w)))
       (w\<lparr>next_addr := Suc (Suc (Suc (next_addr w + origin_allocs f +
                           (if 0 < count (radius_opts a) then 1 else 0))))\<rparr>)"
  using assms
  by (simp add: prepare_geo_search_store_args_def alloc_arg_arrays_unlimited from_block_unlimited
      by_block_unlimited count_block_unlimited sort_block_write storedist_block_write
      set_arg_write write_tokens_append search_tail_def fresh_slots_def)

lemma origin_tokens_length: "length (origin_tokens fm f n) \<le> 3"
  by (simp add: origin_tokens_def split: zval.splits option.splits)

lemma with_tokens_length: "length (with_tokens wo) \<le> 3"
  by (simp add: with_tokens_def)

lemma count_tokens_length: "length (count_tokens fm ro n) \<le> 3"
  by (simp add: count_tokens_def)

lemma sort_tokens_length: "length (sort_tokens ro) \<le> 1"
  by (simp add: sort_tokens_def split: option.splits)

lemma storedist_tokens_length: "length (storedist_tokens ro) \<le> 1"
  by (simp add: storedist_tokens_def)

lemma search_tail_length: "length (search_tail fm f r u wo ro n) \<le> 13"
proof -
  have "length (case wo of None \<Rightarrow> [] | Some x \<Rightarrow> with_tokens x) \<le> 3"
    using with_tokens_length by (cases wo) simp_all
  with origin_tokens_length [of fm f n]
    count_tokens_length [of fm ro "Suc (n + origin_allocs f)"] sort_tokens_length [of ro]
  show ?thesis unfolding search_tail_def length_append by simp
qed

lemma length_converted [simp]: "length (converted fm n zs) = length zs"
  by (induction zs arbitrary: n) (simp_all split: zval.splits)

lemma convert_loop_unlimited:
  "alloc_budget w = None \<Longrightarrow>
   convert_loop fm zs st w =
     (True, write_tokens (converted fm (next_addr w) zs) st,
      w\<lparr>next_addr := next_addr w +
           length (filter is_scratch (converted fm (next_addr w) zs))\<rparr>)"
proof (induction zs arbitrary: st w)
  case Nil
  then show ?case by simp
next
  case (Cons z zs)
  show ?case
  proof (cases "\<exists>s. z = ZString s")
    case True
    then obtain s where z: "z = ZString s" by blast
    show ?thesis
      using Cons.prems Cons.IH [of w "set_arg (Caller s) st"]
      by (simp add: z zval_to_string_safe_unlimited set_arg_write write_tokens_append)
  next
    case False
    let ?p = "Scratch (next_addr w) (fmt_zval fm z)"
    let ?w = "w\<lparr>next_addr := Suc (next_addr w)\<rparr>"
    have safe: "zval_to_string_safe fm z w = (Some ?p, True, ?w)"
      using False Cons.prems by (cases z) (simp_all add: zval_to_string_safe_unlimited)
    have conv: "converted fm (next_addr w) (z # zs) = ?p # converted fm (Suc (next_addr w)) zs"
      using False by (cases z) simp_all
    have "alloc_budget ?w = None" using Cons.prems by simp
    from Cons.IH [OF this, of "ledger_add ?p (set_arg ?p st)"]
    show ?thesis
      by (simp add: safe conv ledger_add_write write_tokens_append del: converted.simps)
  qed
qed

lemma members_args_unlimited:
  assumes "key a = Some k" "members a = Some ms" "ms \<noteq> []" "alloc_budget w = None"
  shows "prepare_geo_members_args fm (Some a) led w =
     (built (write_tokens (Caller k # converted fm (Suc (Suc (next_addr w))) ms)
              (fresh_slots (Suc (length ms)) led (next_addr w)))
        (w\<lparr>next_addr := Suc (Suc (next_addr w)) +
              length (filter is_scratch (converted fm (Suc (Suc (next_addr w))) ms))\<rparr>))
     \<lparr>arg_count := c_int (Suc (length ms))\<rparr>"
  using assms
  by (simp add: prepare_geo_members_args_def member_count_def alloc_arg_arrays_unlimited
      convert_loop_unlimited set_arg_write write_tokens_append fresh_slots_def)

lemma add_args_unlimited:
  assumes "key a = Some k" "geo_args a = Some gs" "3 \<le> length gs" "length gs mod 3 = 0"
    "alloc_budget w = None"
  shows "prepare_geo_add_args fm (Some a) led w =
     (built (write_tokens (Caller k # converted fm (Suc (Suc (next_addr w))) gs)
              (fresh_slots (Suc (length gs)) led (next_addr w)))
        (w\<lparr>next_addr := Suc (Suc (next_addr w)) +
              length (filter is_scratch (converted fm (Suc (Suc (next_addr w))) gs))\<rparr>))
     \<lparr>arg_count := c_int (Suc (length gs))\<rparr>"
  using assms
  by (simp add: prepare_geo_add_args_def geo_args_count_def alloc_arg_arrays_unlimited
      convert_loop_unlimited set_arg_write write_tokens_append fresh_slots_def)

subsection \<open>The distance builder\<close>

text \<open>
  Claim C9. With key, source and destination present and no allocation request
  failing, the distance builder returns 3 and the argument list key, src, dst when no
  unit is given, and returns 4 and the list key, src, dst, unit when a unit is given
  (the length array holding the lengths of these strings). With the destination member
  missing it returns 0 with both out-parameters unassigned and the world unchanged:
  nothing was allocated.
\<close>

theorem dist_builder_args:
  "(key a = Some k \<and> src_member a = Some s \<and> dst_member a = Some d \<and> unit a = None \<and>
    alloc_budget w = None \<longrightarrow>
      prepare_geo_dist_args (Some a) w =
        \<lparr>arg_count = 3,
         arg_values = Some \<lparr>base = next_addr w, capacity = 3,
                            elems = [Caller k, Caller s, Caller d]\<rparr>,
         arg_lens = Some \<lparr>base = Suc (next_addr w), capacity = 3,
                          elems = [length k, length s, length d]\<rparr>,
         allocated_strings = None,
         world_after = w\<lparr>next_addr := Suc (Suc (next_addr w))\<rparr>\<rparr>)
   \<and> (key a = Some k \<and> src_member a = Some s \<and> dst_member a = Some d \<and> unit a = Some u \<and>
      alloc_budget w = None \<longrightarrow>
      prepare_geo_dist_args (Some a) w =
        \<lparr>arg_count = 4,
         arg_values = Some \<lparr>base = next_addr w, capacity = 4,
                            elems = [Caller k, Caller s, Caller d, Caller u]\<rparr>,
         arg_lens = Some \<lparr>base = Suc (next_addr w), capacity = 4,
                          elems = [length k, length s, length d, length u]\<rparr>,
         allocated_strings = None,
         world_after = w\<lparr>next_addr := Suc (Suc (next_addr w))\<rparr>\<rparr>)
   \<and> (dst_member a = None \<longrightarrow>
      prepare_geo_dist_args (Some a) w =
        \<lparr>arg_count = 0, arg_values = None, arg_lens = None, allocated_strings = None,
         world_after = w\<rparr>)"
  by (auto simp: prepare_geo_dist_args_def alloc_arg_arrays_unlimited put_def c_int_def
      rejected_def split: option.splits)

theorem dist_builder_args_witness:
  "prepare_geo_dist_args
     (Some (no_args\<lparr>key := Some ''k'', src_member := Some ''Palermo'',
                     dst_member := Some ''Catania''\<rparr>)) empty_world =
     \<lparr>arg_count = 3,
      arg_values = Some \<lparr>base = 0, capacity = 3,
                         elems = [Caller ''k'', Caller ''Palermo'', Caller ''Catania'']\<rparr>,
      arg_lens = Some \<lparr>base = 1, capacity = 3, elems = [1, 7, 7]\<rparr>,
      allocated_strings = None,
      world_after = empty_world\<lparr>next_addr := 2\<rparr>\<rparr>
   \<and> prepare_geo_dist_args
     (Some (no_args\<lparr>key := Some ''k'', src_member := Some ''Palermo'',
                     dst_member := Some ''Catania'', unit := Some ''km''\<rparr>)) empty_world =
     \<lparr>arg_count = 4,
      arg_values = Some \<lparr>base = 0, capacity = 4,
                         elems = [Caller ''k'', Caller ''Palermo'', Caller ''Catania'',
                                  Caller ''km'']\<rparr>,
      arg_lens = Some \<lparr>base = 1, capacity = 4, elems = [1, 7, 7, 2]\<rparr>,
      allocated_strings = None,
      world_after = empty_world\<lparr>next_addr := 2\<rparr>\<rparr>
   \<and> dst_member (no_args\<lparr>key := Some ''k'', src_member := Some ''Palermo''\<rparr>) = None
   \<and> prepare_geo_dist_args
     (Some (no_args\<lparr>key := Some ''k'', src_member := Some ''Palermo''\<rparr>)) empty_world =
     \<lparr>arg_count = 0, arg_values = None, arg_lens = None, allocated_strings = None,
      world_after = empty_world\<rparr>"
  using
    dist_builder_args [of "no_args\<lparr>key := Some ''k'', src_member := Some ''Palermo'',
                     dst_member := Some ''Catania''\<rparr>" "''k''" "''Palermo''" "''Catania''"
                     empty_world]
    dist_builder_args [of "no_args\<lparr>key := Some ''k'', src_member := Some ''Palermo'',
                     dst_member := Some ''Catania'', unit := Some ''km''\<rparr>" "''k''" "''Palermo''"
                     "''Catania''" empty_world "''km''"]
    dist_builder_args [of "no_args\<lparr>key := Some ''k'', src_member := Some ''Palermo''\<rparr>"
                     _ _ _ empty_world]
  by (simp add: no_args_def empty_world_def)

subsection \<open>Facts about the sample inputs\<close>

lemma text_formatters_simps [simp]:
  "fmt_double text_formatters s = s"
  "fmt_long text_formatters i = show_nat (nat i)"
  "fmt_zval text_formatters (ZDouble s) = s"
  "fmt_zval text_formatters (ZLong i) = show_nat (nat i)"
  "zval_get_double text_formatters (ZDouble s) = s"
  by (simp_all add: text_formatters_def)

lemma show_nat_samples [simp]: "show_nat 1 = ''1''" "show_nat 2 = ''2''" "show_nat 10 = ''10''"
  by (simp_all add: show_nat.simps)

lemma world1_simps [simp]: "next_addr world1 = 1" "alloc_budget world1 = None"
  by (simp_all add: world1_def empty_world_def)

lemma palermo_search_simps [simp]:
  "key palermo_search = Some ''k''" "from_zv palermo_search = Some (ZString ''Palermo'')"
  "by_radius palermo_search = Some ''200''" "unit palermo_search = Some ''km''"
  "radius_opts palermo_search =
     no_opts\<lparr>with_opts := \<lparr>withcoord = False, withdist = True, withhash = False\<rparr>\<rparr>"
  by (simp_all add: palermo_search_def no_args_def)

lemma lonlat_search_simps [simp]:
  "key lonlat_search = Some ''k''"
  "from_zv lonlat_search = Some (ZArray [(KInt 0, ZDouble ''15''), (KInt 1, ZDouble ''37'')])"
  "by_radius lonlat_search = Some ''200''" "unit lonlat_search = Some ''km''"
  "radius_opts lonlat_search =
     \<lparr>with_opts = \<lparr>withcoord = True, withdist = True, withhash = True\<rparr>,
      count = 10, any = True, sort_tok = Some ''ASC'', store_dist = False\<rparr>"
  by (simp_all add: lonlat_search_def no_args_def)

lemma palermo_store_simps [simp]:
  "dest palermo_store = Some ''dst''" "src palermo_store = Some ''src''"
  "key palermo_store = Some ''k''" "from_zv palermo_store = Some (ZString ''Palermo'')"
  "by_radius palermo_store = Some ''200''" "unit palermo_store = Some ''km''"
  "radius_opts palermo_store =
     no_opts\<lparr>with_opts := \<lparr>withcoord = False, withdist = True, withhash = False\<rparr>\<rparr>"
  by (simp_all add: palermo_store_def)

lemma lonlat_store_simps [simp]:
  "dest lonlat_store = Some ''dst''" "src lonlat_store = Some ''src''"
  "from_zv lonlat_store = Some (ZArray [(KInt 0, ZDouble ''15''), (KInt 1, ZDouble ''37'')])"
  "by_radius lonlat_store = Some ''200''" "unit lonlat_store = Some ''km''"
  "radius_opts lonlat_store =
     \<lparr>with_opts = \<lparr>withcoord = True, withdist = True, withhash = True\<rparr>,
      count = 10, any = True, sort_tok = Some ''ASC'', store_dist = True\<rparr>"
  by (simp_all add: lonlat_store_def)

lemma odd_search_simps [simp]:
  "key odd_search = Some ''k''" "dest odd_search = Some ''dst''" "src odd_search = Some ''src''"
  "from_zv odd_search = Some (ZLong 5)"
  "by_radius odd_search = Some ''200''" "unit odd_search = Some ''km''"
  "radius_opts odd_search = no_opts"
  by (simp_all add: odd_search_def no_args_def)

lemma ab_members_simps [simp]:
  "key ab_members = Some ''k''" "members ab_members = Some [ZString ''a'', ZString ''b'']"
  by (simp_all add: ab_members_def no_args_def)

lemma palermo_add_simps [simp]:
  "key palermo_add = Some ''geo''"
  "geo_args palermo_add = Some [ZDouble ''13.361389'', ZDouble ''38.115556'', ZString ''Palermo'']"
  by (simp_all add: palermo_add_def no_args_def)

subsection \<open>The search builders\<close>

lemma with_tokens_literals: "set (with_tokens wo) \<subseteq> Literal ` {''WITHCOORD'', ''WITHDIST'', ''WITHHASH''}"
  by (auto simp: with_tokens_def)

lemma origin_tokens_malformed: "malformed_origin f \<Longrightarrow> origin_tokens fm f n = [] \<and> origin_allocs f = 0"
  by (auto simp: malformed_origin_def origin_tokens_def origin_allocs_def split: zval.splits option.splits)

lemma literal_in_origin:
  "Literal x \<in> set (origin_tokens fm f n) \<Longrightarrow> x = ''FROMMEMBER'' \<or> x = ''FROMLONLAT''"
  by (auto simp: origin_tokens_def split: zval.splits option.splits)

lemma literal_in_count: "Literal x \<in> set (count_tokens fm ro n) \<Longrightarrow> x = ''COUNT'' \<or> x = ''ANY''"
  by (auto simp: count_tokens_def split: if_splits)

lemma literal_in_sort: "Literal x \<notin> set (sort_tokens ro)"
  by (auto simp: sort_tokens_def split: option.splits if_splits)

lemma literal_in_storedist: "Literal x \<in> set (storedist_tokens ro) \<Longrightarrow> x = ''STOREDIST''"
  by (auto simp: storedist_tokens_def split: if_splits)

lemma literal_in_plain_tail:
  "Literal x \<in> set (search_tail fm f r u None ro n) \<Longrightarrow>
     x \<in> {''FROMMEMBER'', ''FROMLONLAT'', ''BYRADIUS'', ''COUNT'', ''ANY''}"
  using literal_in_origin [of x fm f n] literal_in_count [of x fm ro "Suc (n + origin_allocs f)"]
    literal_in_sort [of x ro]
  by (auto simp: search_tail_def)

lemma values_built:
  "arg_values (built (write_tokens ps (fresh_slots cap led n)) w') =
     Some \<lparr>base = n, capacity = cap, elems = ps\<rparr>"
  by (simp add: built_def write_tokens_def fresh_slots_def)

lemma count_built:
  "length ps < 2 ^ 31 \<Longrightarrow>
   arg_count (built (write_tokens ps (fresh_slots cap led n)) w') = int (length ps)"
  by (simp add: built_def write_tokens_def fresh_slots_def c_int_small)

text \<open>
  Claim C6. For a Search input with key, radius and unit present and an origin that
  is a member string or a coordinate pair (an array with elements at the indices 0 and
  1), no allocation request failing, the argument array holds: the key; then
  \<^verbatim>\<open>FROMMEMBER <name>\<close>, or \<^verbatim>\<open>FROMLONLAT <lon> <lat>\<close> with both coordinates formatted into
  fresh blocks that are ledgered; then \<^verbatim>\<open>BYRADIUS <radius> <unit>\<close>, the radius formatted and
  ledgered; then WITHCOORD, WITHDIST, WITHHASH, each exactly when its flag is set, in
  that order; then \<^verbatim>\<open>COUNT <n>\<close> (and ANY when the any-flag is set) exactly when the count
  is positive; then the sort token when one is given (a non-empty string). The length
  array holds the lengths of these texts, the ledger exactly the formatted strings, and
  the returned count is the number of tokens written, which is below the capacity 15
  of the arrays.
\<close>

theorem search_token_stream:
  "(key a = Some k \<and> from_zv a = Some (ZString name) \<and> by_radius a = Some r \<and> unit a = Some u \<and>
    alloc_budget w = None \<longrightarrow>
      (let p = prepare_geo_search_args fm (Some a) led w;
           n = next_addr w;
           toks = [Caller k, Literal ''FROMMEMBER'', Caller name,
                   Literal ''BYRADIUS'', Scratch (n + 2) (fmt_double fm r), Caller u] @
                  with_tokens (with_opts (radius_opts a)) @
                  count_tokens fm (radius_opts a) (n + 3) @
                  sort_tokens (radius_opts a)
       in arg_values p = Some \<lparr>base = n, capacity = 15, elems = toks\<rparr> \<and>
          arg_lens p = Some \<lparr>base = n + 1, capacity = 15, elems = map (length \<circ> content) toks\<rparr> \<and>
          allocated_strings p =
            Some (led\<lparr>elems := [Scratch (n + 2) (fmt_double fm r)] @
                     (if 0 < count (radius_opts a)
                      then [Scratch (n + 3) (fmt_long fm (count (radius_opts a)))] else [])\<rparr>) \<and>
          arg_count p = int (length toks) \<and> arg_count p < 15))
   \<and> (key a = Some k \<and> from_zv a = Some (ZArray ht) \<and> zend_hash_index_find ht 0 = Some lon \<and>
      zend_hash_index_find ht 1 = Some lat \<and> by_radius a = Some r \<and> unit a = Some u \<and>
      alloc_budget w = None \<longrightarrow>
      (let p = prepare_geo_search_args fm (Some a) led w;
           n = next_addr w;
           toks = [Caller k, Literal ''FROMLONLAT'',
                   Scratch (n + 2) (fmt_double fm (zval_get_double fm lon)),
                   Scratch (n + 3) (fmt_double fm (zval_get_double fm lat)),
                   Literal ''BYRADIUS'', Scratch (n + 4) (fmt_double fm r), Caller u] @
                  with_tokens (with_opts (radius_opts a)) @
                  count_tokens fm (radius_opts a) (n + 5) @
                  sort_tokens (radius_opts a)
       in arg_values p = Some \<lparr>base = n, capacity = 15, elems = toks\<rparr> \<and>
          arg_lens p = Some \<lparr>base = n + 1, capacity = 15, elems = map (length \<circ> content) toks\<rparr> \<and>
          allocated_strings p =
            Some (led\<lparr>elems := [Scratch (n + 2) (fmt_double fm (zval_get_double fm lon)),
                              Scratch (n + 3) (fmt_double fm (zval_get_double fm lat)),
                              Scratch (n + 4) (fmt_double fm r)] @
                     (if 0 < count (radius_opts a)
                      then [Scratch (n + 5) (fmt_long fm (count (radius_opts a)))] else [])\<rparr>) \<and>
          arg_count p = int (length toks) \<and> arg_count p < 15))"
proof (intro conjI impI)
  assume h: "key a = Some k \<and> from_zv a = Some (ZString name) \<and> by_radius a = Some r \<and>
    unit a = Some u \<and> alloc_budget w = None"
  let ?tail = "search_tail fm (ZString name) r u (Some (with_opts (radius_opts a))) (radius_opts a)
                 (Suc (Suc (next_addr w)))"
  have len: "Suc (length ?tail) < 2 ^ 31" "length ?tail \<le> 13"
    using search_tail_length [of fm "ZString name" r u "Some (with_opts (radius_opts a))"
        "radius_opts a" "Suc (Suc (next_addr w))"] by simp_all
  have tail: "?tail = [Literal ''FROMMEMBER'', Caller name,
                   Literal ''BYRADIUS'', Scratch (next_addr w + 2) (fmt_double fm r), Caller u] @
                  with_tokens (with_opts (radius_opts a)) @
                  count_tokens fm (radius_opts a) (next_addr w + 3) @
                  sort_tokens (radius_opts a)"
    by (simp add: search_tail_def origin_tokens_def origin_allocs_def eval_nat_numeral)
  from h have hs: "key a = Some k" "by_radius a = Some r" "unit a = Some u" "alloc_budget w = None"
    by simp_all
  from h have hf: "from_zv a = Some (ZString name)" by simp
  note built = search_args_unlimited [OF hs(1) hf hs(2) hs(3) hs(4), of fm led]
  have cnt: "arg_count (prepare_geo_search_args fm (Some a) led w) = int (Suc (length ?tail))"
    unfolding built using len(1) by (simp add: built_def write_tokens_def fresh_slots_def c_int_small)
  show "let p = prepare_geo_search_args fm (Some a) led w;
           n = next_addr w;
           toks = [Caller k, Literal ''FROMMEMBER'', Caller name,
                   Literal ''BYRADIUS'', Scratch (n + 2) (fmt_double fm r), Caller u] @
                  with_tokens (with_opts (radius_opts a)) @
                  count_tokens fm (radius_opts a) (n + 3) @
                  sort_tokens (radius_opts a)
       in arg_values p = Some \<lparr>base = n, capacity = 15, elems = toks\<rparr> \<and>
          arg_lens p = Some \<lparr>base = n + 1, capacity = 15, elems = map (length \<circ> content) toks\<rparr> \<and>
          allocated_strings p =
            Some (led\<lparr>elems := [Scratch (n + 2) (fmt_double fm r)] @
                     (if 0 < count (radius_opts a)
                      then [Scratch (n + 3) (fmt_long fm (count (radius_opts a)))] else [])\<rparr>) \<and>
          arg_count p = int (length toks) \<and> arg_count p < 15"
    unfolding Let_def
  proof (intro conjI)
    show "arg_count (prepare_geo_search_args fm (Some a) led w) < 15"
      unfolding cnt using len(2) by simp
    show "arg_count (prepare_geo_search_args fm (Some a) led w) =
      int (length ([Caller k, Literal ''FROMMEMBER'', Caller name,
                   Literal ''BYRADIUS'', Scratch (next_addr w + 2) (fmt_double fm r), Caller u] @
                  with_tokens (with_opts (radius_opts a)) @
                  count_tokens fm (radius_opts a) (next_addr w + 3) @
                  sort_tokens (radius_opts a)))"
      unfolding cnt tail by simp
  qed (simp_all add: built tail built_def write_tokens_def fresh_slots_def
         with_tokens_def count_tokens_def sort_tokens_def split: option.splits)
next
  assume h: "key a = Some k \<and> from_zv a = Some (ZArray ht) \<and> zend_hash_index_find ht 0 = Some lon \<and>
      zend_hash_index_find ht 1 = Some lat \<and> by_radius a = Some r \<and> unit a = Some u \<and>
      alloc_budget w = None"
  let ?tail = "search_tail fm (ZArray ht) r u (Some (with_opts (radius_opts a))) (radius_opts a)
                 (Suc (Suc (next_addr w)))"
  have len: "Suc (length ?tail) < 2 ^ 31" "length ?tail \<le> 13"
    using search_tail_length [of fm "ZArray ht" r u "Some (with_opts (radius_opts a))"
        "radius_opts a" "Suc (Suc (next_addr w))"] by simp_all
  have tail: "?tail = [Literal ''FROMLONLAT'',
                   Scratch (next_addr w + 2) (fmt_double fm (zval_get_double fm lon)),
                   Scratch (next_addr w + 3) (fmt_double fm (zval_get_double fm lat)),
                   Literal ''BYRADIUS'', Scratch (next_addr w + 4) (fmt_double fm r), Caller u] @
                  with_tokens (with_opts (radius_opts a)) @
                  count_tokens fm (radius_opts a) (next_addr w + 5) @
                  sort_tokens (radius_opts a)"
    using h by (simp add: search_tail_def origin_tokens_def origin_allocs_def eval_nat_numeral)
  from h have hs: "key a = Some k" "by_radius a = Some r" "unit a = Some u" "alloc_budget w = None"
    by simp_all
  from h have hf: "from_zv a = Some (ZArray ht)" by simp
  note built = search_args_unlimited [OF hs(1) hf hs(2) hs(3) hs(4), of fm led]
  have cnt: "arg_count (prepare_geo_search_args fm (Some a) led w) = int (Suc (length ?tail))"
    unfolding built using len(1) by (simp add: built_def write_tokens_def fresh_slots_def c_int_small)
  show "let p = prepare_geo_search_args fm (Some a) led w;
           n = next_addr w;
           toks = [Caller k, Literal ''FROMLONLAT'',
                   Scratch (n + 2) (fmt_double fm (zval_get_double fm lon)),
                   Scratch (n + 3) (fmt_double fm (zval_get_double fm lat)),
                   Literal ''BYRADIUS'', Scratch (n + 4) (fmt_double fm r), Caller u] @
                  with_tokens (with_opts (radius_opts a)) @
                  count_tokens fm (radius_opts a) (n + 5) @
                  sort_tokens (radius_opts a)
       in arg_values p = Some \<lparr>base = n, capacity = 15, elems = toks\<rparr> \<and>
          arg_lens p = Some \<lparr>base = n + 1, capacity = 15, elems = map (length \<circ> content) toks\<rparr> \<and>
          allocated_strings p =
            Some (led\<lparr>elems := [Scratch (n + 2) (fmt_double fm (zval_get_double fm lon)),
                              Scratch (n + 3) (fmt_double fm (zval_get_double fm lat)),
                              Scratch (n + 4) (fmt_double fm r)] @
                     (if 0 < count (radius_opts a)
                      then [Scratch (n + 5) (fmt_long fm (count (radius_opts a)))] else [])\<rparr>) \<and>
          arg_count p = int (length toks) \<and> arg_count p < 15"
    unfolding Let_def
  proof (intro conjI)
    show "arg_count (prepare_geo_search_args fm (Some a) led w) < 15"
      unfolding cnt using len(2) by simp
    show "arg_count (prepare_geo_search_args fm (Some a) led w) =
      int (length ([Caller k, Literal ''FROMLONLAT'',
                   Scratch (next_addr w + 2) (fmt_double fm (zval_get_double fm lon)),
                   Scratch (next_addr w + 3) (fmt_double fm (zval_get_double fm lat)),
                   Literal ''BYRADIUS'', Scratch (next_addr w + 4) (fmt_double fm r), Caller u] @
                  with_tokens (with_opts (radius_opts a)) @
                  count_tokens fm (radius_opts a) (next_addr w + 5) @
                  sort_tokens (radius_opts a)))"
      unfolding cnt tail by simp
  qed (simp_all add: built tail built_def write_tokens_def fresh_slots_def
         with_tokens_def count_tokens_def sort_tokens_def split: option.splits)
qed

theorem search_token_stream_witness:
  "map_option (map content \<circ> elems)
     (arg_values (prepare_geo_search_args text_formatters (Some palermo_search) ledger0 world1)) =
     Some [''k'', ''FROMMEMBER'', ''Palermo'', ''BYRADIUS'', ''200'', ''km'', ''WITHDIST'']
   \<and> arg_count (prepare_geo_search_args text_formatters (Some palermo_search) ledger0 world1) = 7
   \<and> allocated_strings (prepare_geo_search_args text_formatters (Some palermo_search) ledger0 world1) =
       Some \<lparr>base = 0, capacity = 10, elems = [Scratch 3 ''200'']\<rparr>
   \<and> map_option (map content \<circ> elems)
     (arg_values (prepare_geo_search_args text_formatters (Some lonlat_search) ledger0 world1)) =
     Some [''k'', ''FROMLONLAT'', ''15'', ''37'', ''BYRADIUS'', ''200'', ''km'',
           ''WITHCOORD'', ''WITHDIST'', ''WITHHASH'', ''COUNT'', ''10'', ''ANY'', ''ASC'']
   \<and> arg_count (prepare_geo_search_args text_formatters (Some lonlat_search) ledger0 world1) = 14
   \<and> allocated_strings (prepare_geo_search_args text_formatters (Some lonlat_search) ledger0 world1) =
       Some \<lparr>base = 0, capacity = 10,
              elems = [Scratch 3 ''15'', Scratch 4 ''37'', Scratch 5 ''200'', Scratch 6 ''10'']\<rparr>"
  using
    search_token_stream [where a = palermo_search and k = "''k''" and name = "''Palermo''"
      and r = "''200''" and u = "''km''" and w = world1 and fm = text_formatters and led = ledger0]
    search_token_stream [where a = lonlat_search and k = "''k''" and r = "''200''" and u = "''km''"
      and w = world1 and ht = "[(KInt 0, ZDouble ''15''), (KInt 1, ZDouble ''37'')]"
      and lon = "ZDouble ''15''" and lat = "ZDouble ''37''" and fm = text_formatters
      and led = ledger0]
  by (simp add: Let_def with_tokens_def count_tokens_def sort_tokens_def no_opts_def ledger0_def
      zend_hash_index_find_def)

text \<open>
  Claim C3, as stated, fails on the WITH tokens: on the same input, with the
  distance flag set, the Search builder writes WITHDIST and the SearchStore builder
  does not.
\<close>

theorem search_store_drops_with_tokens:
  "withdist (with_opts (radius_opts palermo_store))
   \<and> map_option (map content \<circ> elems)
        (arg_values (prepare_geo_search_args text_formatters (Some palermo_store) ledger0 world1)) =
      Some [''k'', ''FROMMEMBER'', ''Palermo'', ''BYRADIUS'', ''200'', ''km'', ''WITHDIST'']
   \<and> map_option (map content \<circ> elems)
        (arg_values (prepare_geo_search_store_args text_formatters (Some palermo_store) ledger0 world1)) =
      Some [''dst'', ''src'', ''FROMMEMBER'', ''Palermo'', ''BYRADIUS'', ''200'', ''km'']"
proof -
  have "prepare_geo_search_args text_formatters (Some palermo_store) ledger0 world1 =
     built (write_tokens
              (Caller ''k'' # search_tail text_formatters (ZString ''Palermo'') ''200'' ''km''
                 (Some (with_opts (radius_opts palermo_store))) (radius_opts palermo_store)
                 (Suc (Suc (next_addr world1))))
              (fresh_slots 15 ledger0 (next_addr world1)))
       (world1\<lparr>next_addr := Suc (Suc (Suc (next_addr world1 +
            origin_allocs (ZString ''Palermo'' :: string zval) +
            (if 0 < count (radius_opts palermo_store) then 1 else 0))))\<rparr>)"
    by (rule search_args_unlimited) simp_all
  moreover have "prepare_geo_search_store_args text_formatters (Some palermo_store) ledger0 world1 =
     built (write_tokens
              (Caller ''dst'' # Caller ''src'' #
               search_tail text_formatters (ZString ''Palermo'') ''200'' ''km'' None
                 (radius_opts palermo_store) (Suc (Suc (next_addr world1))) @
               storedist_tokens (radius_opts palermo_store))
              (fresh_slots 16 ledger0 (next_addr world1)))
       (world1\<lparr>next_addr := Suc (Suc (Suc (next_addr world1 +
            origin_allocs (ZString ''Palermo'' :: string zval) +
            (if 0 < count (radius_opts palermo_store) then 1 else 0))))\<rparr>)"
    by (rule search_store_args_unlimited) simp_all
  ultimately show ?thesis
    by (simp add: values_built search_tail_def origin_tokens_def origin_allocs_def with_tokens_def
        count_tokens_def sort_tokens_def storedist_tokens_def no_opts_def)
qed

text \<open>
  Claim C3, amended. For a SearchStore input with destination, source, origin, radius
  and unit present, no allocation request failing, the token list is the destination
  key, the source key, then exactly what the Search builder writes after its key for
  the same input with the three WITH flags clear (origin, \<^verbatim>\<open>BYRADIUS <radius> <unit>\<close>, COUNT
  and ANY, sort), then STOREDIST exactly when the store-distances flag is set. The WITH
  flags of the input are not read: no WITHCOORD, WITHDIST or WITHHASH token is written.
\<close>

theorem search_store_token_stream:
  "dest a = Some d \<and> src a = Some s \<and> from_zv a = Some f \<and> by_radius a = Some r \<and>
   unit a = Some u \<and> alloc_budget w = None \<longrightarrow>
     (let store = prepare_geo_search_store_args fm (Some a) led w;
          plain = prepare_geo_search_args fm
                    (Some (a\<lparr>key := Some k,
                              radius_opts := (radius_opts a)\<lparr>with_opts :=
                                \<lparr>withcoord = False, withdist = False, withhash = False\<rparr>\<rparr>\<rparr>))
                    led w
      in map_option elems (arg_values store) =
           map_option (\<lambda>ts. [Caller d, Caller s] @ tl ts @ storedist_tokens (radius_opts a))
             (map_option elems (arg_values plain)) \<and>
         map_option elems (arg_values store) =
           Some (Caller d # Caller s #
                 search_tail fm f r u None (radius_opts a) (next_addr w + 2) @
                 storedist_tokens (radius_opts a)) \<and>
         Literal ''WITHCOORD'' \<notin> set (elems (the (arg_values store))) \<and>
         Literal ''WITHDIST'' \<notin> set (elems (the (arg_values store))) \<and>
         Literal ''WITHHASH'' \<notin> set (elems (the (arg_values store))))"
proof
  assume h: "dest a = Some d \<and> src a = Some s \<and> from_zv a = Some f \<and> by_radius a = Some r \<and>
   unit a = Some u \<and> alloc_budget w = None"
  let ?a = "a\<lparr>key := Some k, radius_opts := (radius_opts a)\<lparr>with_opts :=
                \<lparr>withcoord = False, withdist = False, withhash = False\<rparr>\<rparr>\<rparr>"
  from h have hs: "dest a = Some d" "src a = Some s" "from_zv a = Some f" "by_radius a = Some r"
    "unit a = Some u" "alloc_budget w = None" by simp_all
  note store = search_store_args_unlimited [OF hs, of fm led]
  have "key ?a = Some k" "from_zv ?a = Some f" "by_radius ?a = Some r" "unit ?a = Some u"
    using hs by simp_all
  note plain = search_args_unlimited [OF this hs(6), of fm led]
  have tails: "search_tail fm f r u (Some (with_opts (radius_opts ?a))) (radius_opts ?a) (Suc (Suc (next_addr w)))
      = search_tail fm f r u None (radius_opts a) (Suc (Suc (next_addr w)))"
    by (simp add: search_tail_def with_tokens_def count_tokens_def sort_tokens_def)
  have no_with: "Literal x \<notin> set (Caller d # Caller s #
                 search_tail fm f r u None (radius_opts a) (Suc (Suc (next_addr w))) @
                 storedist_tokens (radius_opts a))"
    if "x \<in> {''WITHCOORD'', ''WITHDIST'', ''WITHHASH''}" for x
    using that literal_in_plain_tail [of x fm f r u "radius_opts a" "Suc (Suc (next_addr w))"]
      literal_in_storedist [of x "radius_opts a"]
    by auto
  show "let store = prepare_geo_search_store_args fm (Some a) led w;
          plain = prepare_geo_search_args fm (Some ?a) led w
      in map_option elems (arg_values store) =
           map_option (\<lambda>ts. [Caller d, Caller s] @ tl ts @ storedist_tokens (radius_opts a))
             (map_option elems (arg_values plain)) \<and>
         map_option elems (arg_values store) =
           Some (Caller d # Caller s #
                 search_tail fm f r u None (radius_opts a) (next_addr w + 2) @
                 storedist_tokens (radius_opts a)) \<and>
         Literal ''WITHCOORD'' \<notin> set (elems (the (arg_values store))) \<and>
         Literal ''WITHDIST'' \<notin> set (elems (the (arg_values store))) \<and>
         Literal ''WITHHASH'' \<notin> set (elems (the (arg_values store)))"
    unfolding Let_def store plain values_built tails
    using no_with [of "''WITHCOORD''"] no_with [of "''WITHDIST''"] no_with [of "''WITHHASH''"]
    by simp
qed

theorem search_store_token_stream_witness:
  "map_option (map content \<circ> elems)
        (arg_values (prepare_geo_search_store_args text_formatters (Some lonlat_store) ledger0 world1)) =
      Some [''dst'', ''src'', ''FROMLONLAT'', ''15'', ''37'', ''BYRADIUS'', ''200'', ''km'',
            ''COUNT'', ''10'', ''ANY'', ''ASC'', ''STOREDIST'']
   \<and> Literal ''WITHDIST'' \<notin> set (elems (the (arg_values
        (prepare_geo_search_store_args text_formatters (Some lonlat_store) ledger0 world1))))"
  using search_store_token_stream [where a = lonlat_store and d = "''dst''" and s = "''src''"
      and f = "ZArray [(KInt 0, ZDouble ''15''), (KInt 1, ZDouble ''37'')]" and r = "''200''"
      and u = "''km''" and w = world1 and fm = text_formatters and led = ledger0 and k = "''k''"]
  by (auto simp add: Let_def search_tail_def origin_tokens_def origin_allocs_def count_tokens_def
      sort_tokens_def storedist_tokens_def zend_hash_index_find_def)

text \<open>
  Claim C10. When the origin is there but is neither a string nor an array with
  elements at both indices 0 and 1, and the other required fields are present and no
  allocation request fails, the Search builder and the SearchStore builder both return
  a positive count, and the argument list goes from the key(s) straight to BYRADIUS:
  it holds neither the FROMMEMBER nor the FROMLONLAT token.
\<close>

theorem malformed_origin_dropped:
  "(key a = Some k \<and> from_zv a = Some f \<and> malformed_origin f \<and> by_radius a = Some r \<and>
    unit a = Some u \<and> alloc_budget w = None \<longrightarrow>
      (let p = prepare_geo_search_args fm (Some a) led w in
         0 < arg_count p \<and>
         map_option elems (arg_values p) =
           Some ([Caller k, Literal ''BYRADIUS'', Scratch (next_addr w + 2) (fmt_double fm r),
                  Caller u] @
                 with_tokens (with_opts (radius_opts a)) @
                 count_tokens fm (radius_opts a) (next_addr w + 3) @
                 sort_tokens (radius_opts a)) \<and>
         Literal ''FROMMEMBER'' \<notin> set (elems (the (arg_values p))) \<and>
         Literal ''FROMLONLAT'' \<notin> set (elems (the (arg_values p)))))
   \<and> (dest a = Some d \<and> src a = Some s \<and> from_zv a = Some f \<and> malformed_origin f \<and>
      by_radius a = Some r \<and> unit a = Some u \<and> alloc_budget w = None \<longrightarrow>
      (let p = prepare_geo_search_store_args fm (Some a) led w in
         0 < arg_count p \<and>
         map_option elems (arg_values p) =
           Some ([Caller d, Caller s, Literal ''BYRADIUS'',
                  Scratch (next_addr w + 2) (fmt_double fm r), Caller u] @
                 count_tokens fm (radius_opts a) (next_addr w + 3) @
                 sort_tokens (radius_opts a) @
                 storedist_tokens (radius_opts a)) \<and>
         Literal ''FROMMEMBER'' \<notin> set (elems (the (arg_values p))) \<and>
         Literal ''FROMLONLAT'' \<notin> set (elems (the (arg_values p)))))"
proof (intro conjI impI)
  assume h: "key a = Some k \<and> from_zv a = Some f \<and> malformed_origin f \<and> by_radius a = Some r \<and>
    unit a = Some u \<and> alloc_budget w = None"
  then have hs: "key a = Some k" "from_zv a = Some f" "by_radius a = Some r" "unit a = Some u"
    "alloc_budget w = None" and mal: "malformed_origin f" by simp_all
  let ?tail = "search_tail fm f r u (Some (with_opts (radius_opts a))) (radius_opts a)
                 (Suc (Suc (next_addr w)))"
  note b = search_args_unlimited [OF hs, of fm led]
  have tail: "?tail = [Literal ''BYRADIUS'', Scratch (next_addr w + 2) (fmt_double fm r), Caller u] @
                 with_tokens (with_opts (radius_opts a)) @
                 count_tokens fm (radius_opts a) (next_addr w + 3) @
                 sort_tokens (radius_opts a)"
    using origin_tokens_malformed [OF mal] by (simp add: search_tail_def eval_nat_numeral)
  have len: "length (Caller k # ?tail) < 2 ^ 31"
    using search_tail_length [of fm f r u "Some (with_opts (radius_opts a))" "radius_opts a"
        "Suc (Suc (next_addr w))"] by simp
  have "Literal x \<notin> set (Caller k # ?tail)" if "x = ''FROMMEMBER'' \<or> x = ''FROMLONLAT''" for x
    unfolding tail using that literal_in_count [of x fm "radius_opts a" "next_addr w + 3"]
      literal_in_sort [of x "radius_opts a"] with_tokens_literals [of "with_opts (radius_opts a)"]
    by auto
  then show "let p = prepare_geo_search_args fm (Some a) led w in
         0 < arg_count p \<and>
         map_option elems (arg_values p) =
           Some ([Caller k, Literal ''BYRADIUS'', Scratch (next_addr w + 2) (fmt_double fm r),
                  Caller u] @
                 with_tokens (with_opts (radius_opts a)) @
                 count_tokens fm (radius_opts a) (next_addr w + 3) @
                 sort_tokens (radius_opts a)) \<and>
         Literal ''FROMMEMBER'' \<notin> set (elems (the (arg_values p))) \<and>
         Literal ''FROMLONLAT'' \<notin> set (elems (the (arg_values p)))"
    unfolding Let_def b values_built count_built [OF len] by (simp add: tail)
next
  assume h: "dest a = Some d \<and> src a = Some s \<and> from_zv a = Some f \<and> malformed_origin f \<and>
      by_radius a = Some r \<and> unit a = Some u \<and> alloc_budget w = None"
  then have hs: "dest a = Some d" "src a = Some s" "from_zv a = Some f" "by_radius a = Some r"
    "unit a = Some u" "alloc_budget w = None" and mal: "malformed_origin f" by simp_all
  let ?tail = "search_tail fm f r u None (radius_opts a) (Suc (Suc (next_addr w)))"
  let ?all = "Caller d # Caller s # ?tail @ storedist_tokens (radius_opts a)"
  note b = search_store_args_unlimited [OF hs, of fm led]
  have tail: "?tail = [Literal ''BYRADIUS'', Scratch (next_addr w + 2) (fmt_double fm r), Caller u] @
                 count_tokens fm (radius_opts a) (next_addr w + 3) @
                 sort_tokens (radius_opts a)"
    using origin_tokens_malformed [OF mal] by (simp add: search_tail_def eval_nat_numeral)
  have len: "length ?all < 2 ^ 31"
    using search_tail_length [of fm f r u None "radius_opts a" "Suc (Suc (next_addr w))"]
      storedist_tokens_length [of "radius_opts a"] by simp
  have "Literal x \<notin> set ?all" if "x = ''FROMMEMBER'' \<or> x = ''FROMLONLAT''" for x
    unfolding tail using that literal_in_count [of x fm "radius_opts a" "next_addr w + 3"]
      literal_in_sort [of x "radius_opts a"] literal_in_storedist [of x "radius_opts a"]
    by auto
  then show "let p = prepare_geo_search_store_args fm (Some a) led w in
         0 < arg_count p \<and>
         map_option elems (arg_values p) =
           Some ([Caller d, Caller s, Literal ''BYRADIUS'',
                  Scratch (next_addr w + 2) (fmt_double fm r), Caller u] @
                 count_tokens fm (radius_opts a) (next_addr w + 3) @
                 sort_tokens (radius_opts a) @
                 storedist_tokens (radius_opts a)) \<and>
         Literal ''FROMMEMBER'' \<notin> set (elems (the (arg_values p))) \<and>
         Literal ''FROMLONLAT'' \<notin> set (elems (the (arg_values p)))"
    unfolding Let_def b values_built count_built [OF len] by (simp add: tail)
qed

theorem malformed_origin_dropped_witness:
  "malformed_origin (ZLong 5 :: string zval)
   \<and> arg_count (prepare_geo_search_args text_formatters (Some odd_search) ledger0 world1) = 4
   \<and> map_option (map content \<circ> elems)
        (arg_values (prepare_geo_search_args text_formatters (Some odd_search) ledger0 world1)) =
      Some [''k'', ''BYRADIUS'', ''200'', ''km'']
   \<and> arg_count (prepare_geo_search_store_args text_formatters (Some odd_search) ledger0 world1) = 5
   \<and> map_option (map content \<circ> elems)
        (arg_values (prepare_geo_search_store_args text_formatters (Some odd_search) ledger0 world1)) =
      Some [''dst'', ''src'', ''BYRADIUS'', ''200'', ''km'']"
proof -
  have m: "malformed_origin (ZLong 5 :: string zval)" by (simp add: malformed_origin_def)
  have 1: "arg_count (prepare_geo_search_args text_formatters (Some odd_search) ledger0 world1) = 4"
    by (simp add: search_args_unlimited built_def write_tokens_def fresh_slots_def search_tail_def
        origin_tokens_def with_tokens_def count_tokens_def sort_tokens_def no_opts_def c_int_def)
  have 2: "arg_count (prepare_geo_search_store_args text_formatters (Some odd_search) ledger0 world1) = 5"
    by (simp add: search_store_args_unlimited built_def write_tokens_def fresh_slots_def search_tail_def
        origin_tokens_def storedist_tokens_def count_tokens_def sort_tokens_def no_opts_def c_int_def)
  show ?thesis
    using m 1 2 malformed_origin_dropped [where a = odd_search and k = "''k''" and d = "''dst''"
        and s = "''src''" and f = "ZLong 5" and r = "''200''" and u = "''km''" and w = world1
        and fm = text_formatters and led = ledger0]
    by (auto simp add: Let_def with_tokens_def count_tokens_def sort_tokens_def
        storedist_tokens_def no_opts_def)
qed

subsection \<open>The member-list and triplet builders\<close>

text \<open>
  Claim C8. With a key and at least one member (fewer than \<open>2\<^sup>3\<^sup>1 - 1\<close>, so that the
  count fits the \<^verbatim>\<open>int\<close> result) and no allocation request failing, the Members builder
  returns 1 + the member count; with a key and \<open>t \<ge> 1\<close> triplets, that is \<open>3 * t\<close> values,
  the Add builder returns \<open>1 + 3 * t\<close>. Without a key, without a member list or with an
  empty one the Members builder returns 0; without a key, without values, with fewer
  than three values or a number of values not divisible by 3 the Add builder returns 0.
\<close>

theorem members_add_arg_count:
  "(key a = Some k \<and> members a = Some ms \<and> ms \<noteq> [] \<and> length ms < 2 ^ 31 - 1 \<and>
      alloc_budget w = None \<longrightarrow>
        arg_count (prepare_geo_members_args fm (Some a) led w) = 1 + int (length ms))
   \<and> (key a = Some k \<and> geo_args a = Some gs \<and> length gs = 3 * t \<and> 1 \<le> t \<and>
      length gs < 2 ^ 31 - 1 \<and> alloc_budget w = None \<longrightarrow>
        arg_count (prepare_geo_add_args fm (Some a) led w) = 1 + 3 * int t)
   \<and> (key a = None \<or> members a = None \<or> members a = Some [] \<longrightarrow>
        arg_count (prepare_geo_members_args fm (Some a) led w) = 0)
   \<and> (key a = None \<or> geo_args a = None \<or>
      geo_args a = Some gs \<and> (length gs < 3 \<or> length gs mod 3 \<noteq> 0) \<longrightarrow>
        arg_count (prepare_geo_add_args fm (Some a) led w) = 0)"
proof (intro conjI impI)
  assume h: "key a = Some k \<and> members a = Some ms \<and> ms \<noteq> [] \<and> length ms < 2 ^ 31 - 1 \<and>
      alloc_budget w = None"
  then have "Suc (length ms) < 2 ^ 31" by simp
  then show "arg_count (prepare_geo_members_args fm (Some a) led w) = 1 + int (length ms)"
    using h by (simp add: members_args_unlimited c_int_small del: One_nat_def)
next
  assume h: "key a = Some k \<and> geo_args a = Some gs \<and> length gs = 3 * t \<and> 1 \<le> t \<and>
      length gs < 2 ^ 31 - 1 \<and> alloc_budget w = None"
  then have "Suc (length gs) < 2 ^ 31" "3 \<le> length gs" "length gs mod 3 = 0" by simp_all
  then show "arg_count (prepare_geo_add_args fm (Some a) led w) = 1 + 3 * int t"
    using h by (simp add: add_args_unlimited c_int_small del: One_nat_def)
next
  assume "key a = None \<or> members a = None \<or> members a = Some []"
  then show "arg_count (prepare_geo_members_args fm (Some a) led w) = 0"
    by (auto simp: prepare_geo_members_args_def member_count_def rejected_def split: option.splits)
next
  assume "key a = None \<or> geo_args a = None \<or>
      geo_args a = Some gs \<and> (length gs < 3 \<or> length gs mod 3 \<noteq> 0)"
  then show "arg_count (prepare_geo_add_args fm (Some a) led w) = 0"
    by (auto simp: prepare_geo_add_args_def geo_args_count_def rejected_def split: option.splits)
qed

theorem members_add_arg_count_witness:
  "arg_count (prepare_geo_members_args text_formatters (Some ab_members)
       \<lparr>base = 0, capacity = 2, elems = []\<rparr> world1) = 3
   \<and> arg_count (prepare_geo_add_args text_formatters (Some palermo_add)
       \<lparr>base = 0, capacity = 3, elems = []\<rparr> world1) = 4
   \<and> members (ab_members\<lparr>members := Some []\<rparr>) = Some []
   \<and> arg_count (prepare_geo_members_args text_formatters (Some (ab_members\<lparr>members := Some []\<rparr>))
       \<lparr>base = 0, capacity = 0, elems = []\<rparr> world1) = 0
   \<and> arg_count (prepare_geo_add_args text_formatters
       (Some (palermo_add\<lparr>geo_args := Some [ZDouble ''13.361389'', ZDouble ''38.115556'']\<rparr>))
       \<lparr>base = 0, capacity = 2, elems = []\<rparr> world1) = 0
   \<and> map_option (map content \<circ> elems)
       (arg_values (prepare_geo_members_args text_formatters (Some ab_members)
          \<lparr>base = 0, capacity = 2, elems = []\<rparr> world1)) = Some [''k'', ''a'', ''b'']
   \<and> map_option (map content \<circ> elems)
       (arg_values (prepare_geo_add_args text_formatters (Some palermo_add)
          \<lparr>base = 0, capacity = 3, elems = []\<rparr> world1)) =
       Some [''geo'', ''13.361389'', ''38.115556'', ''Palermo'']"
  using
    members_add_arg_count [where a = ab_members and k = "''k''"
      and ms = "[ZString ''a'', ZString ''b'']" and w = world1 and fm = text_formatters
      and led = "\<lparr>base = 0, capacity = 2, elems = []\<rparr>", THEN conjunct1]
    members_add_arg_count [where a = palermo_add and k = "''geo''"
      and gs = "[ZDouble ''13.361389'', ZDouble ''38.115556'', ZString ''Palermo'']" and t = 1
      and w = world1 and fm = text_formatters
      and led = "\<lparr>base = 0, capacity = 3, elems = []\<rparr>", THEN conjunct2, THEN conjunct1]
    members_add_arg_count [where a = "ab_members\<lparr>members := Some []\<rparr>" and w = world1
      and fm = text_formatters and led = "\<lparr>base = 0, capacity = 0, elems = []\<rparr>",
      THEN conjunct2, THEN conjunct2, THEN conjunct1]
    members_add_arg_count [where
      a = "palermo_add\<lparr>geo_args := Some [ZDouble ''13.361389'', ZDouble ''38.115556'']\<rparr>"
      and gs = "[ZDouble ''13.361389'', ZDouble ''38.115556'']" and w = world1
      and fm = text_formatters and led = "\<lparr>base = 0, capacity = 2, elems = []\<rparr>",
      THEN conjunct2, THEN conjunct2, THEN conjunct2]
  by (simp add: members_args_unlimited add_args_unlimited values_built)

subsection \<open>The result processors\<close>

lemma add_double_leaf_response:
  "add_double_leaf atof (leaf_response l) (ZArray ht) =
     ZArray (ht @ [(KInt (next_free_element ht), leaf_value atof l)])"
  by (cases l) (simp_all add: add_double_leaf_def add_next_index_def)

lemma next_free_simps [simp]:
  "next_free_element [] = 0"
  "next_free_element [(KInt 0, v)] = 1"
  "next_free_element [(KInt 0, v), (KInt 1, v')] = 2"
  by (simp_all add: next_free_element_def)

lemma member_attrs_response:
  "withdist sd \<or> withhash sd \<or> withcoord sd \<Longrightarrow>
   member_attrs atof sd
     (Some (Array ((if withdist sd then [leaf_response (m_dist m)] else []) @
                   (if withhash sd then [Int_resp (m_hash m)] else []) @
                   (if withcoord sd
                    then [Array [leaf_response (m_lon m), leaf_response (m_lat m)]] else [])))) =
     Some (member_tuple atof sd m)"
  by (cases "withdist sd"; cases "withhash sd"; cases "withcoord sd")
     (simp_all add: member_attrs_def inner_values_def member_tuple_def php_list_def
        add_double_leaf_response add_next_index_def)

lemma search_element_response:
  "withdist sd \<or> withhash sd \<or> withcoord sd \<Longrightarrow>
   search_element atof symtable_key sd (member_response sd m) (ZArray ht) =
     Some (ZArray (hash_update (symtable_key (m_name m)) (member_tuple atof sd m) ht))"
  using member_attrs_response [of sd atof m]
  by (simp add: search_element_def member_response_def add_assoc_zval_ex_def)

lemma hash_update_fresh: "k \<notin> fst ` set ht \<Longrightarrow> hash_update k v ht = ht @ [(k, v)]"
  by (induction ht) auto

lemma search_loop_responses:
  assumes "withdist sd \<or> withhash sd \<or> withcoord sd"
  shows "distinct (map fst ht @ map (\<lambda>m. symtable_key (m_name m)) ms) \<Longrightarrow>
   search_loop atof symtable_key sd (map (member_response sd) ms) (ZArray ht) =
     Some (ZArray (ht @ map (\<lambda>m. (symtable_key (m_name m), member_tuple atof sd m)) ms))"
proof (induction ms arbitrary: ht)
  case Nil
  then show ?case by simp
next
  case (Cons m ms)
  have fresh: "symtable_key (m_name m) \<notin> fst ` set ht"
    using Cons.prems by auto
  have "distinct (map fst (ht @ [(symtable_key (m_name m), member_tuple atof sd m)]) @
                  map (\<lambda>m. symtable_key (m_name m)) ms)"
    using Cons.prems by auto
  from Cons.IH [OF this] show ?case
    by (simp add: search_element_response [OF assms] hash_update_fresh [OF fresh])
qed

text \<open>
  Claim C4, as stated, fails: the Integer processor fails on a String leaf that holds
  a number (status 0, output 0), and the Float processor fails on an Int leaf.
\<close>

theorem int_processor_rejects_text:
  "process_geo_int_result_async (Some (String ''42'')) () ZNull empty_world =
     (0, ZLong 0, empty_world)
   \<and> process_geo_double_result_async keep_text (Some (Int_resp 42)) () ZNull empty_world =
     (0, ZNull, empty_world)"
  by (simp add: process_geo_int_result_async_def process_geo_double_result_async_def)

text \<open>
  Claim C4, amended. The Integer processor accepts an Int leaf (the output is its
  value) and a Null leaf (null output, status 1); on every other leaf, a String leaf
  included, and on a missing response it fails with output 0: it has no text fallback.
  The Float processor accepts a Null leaf (null output, status 1), a Float leaf, and a
  String leaf, which it parses as a text-encoded number; on every other leaf, an Int
  leaf included, it fails and leaves the output as it was.
\<close>

theorem int_and_double_processors:
  "process_geo_int_result_async (Some (Int_resp n)) out rv w = (1, ZLong n, w)
   \<and> process_geo_int_result_async (Some Null) out rv w = (1, ZNull, w)
   \<and> process_geo_int_result_async (Some (String s)) out rv w = (0, ZLong 0, w)
   \<and> process_geo_int_result_async (Some (Float f)) out rv w = (0, ZLong 0, w)
   \<and> process_geo_int_result_async (Some (Array xs)) out rv w = (0, ZLong 0, w)
   \<and> process_geo_int_result_async None out rv w = (0, ZLong 0, w)
   \<and> process_geo_double_result_async atof (Some Null) out rv w = (1, ZNull, w)
   \<and> process_geo_double_result_async atof (Some (String s)) out rv w = (1, ZDouble (atof s), w)
   \<and> process_geo_double_result_async atof (Some (Float f)) out rv w = (1, ZDouble f, w)
   \<and> process_geo_double_result_async atof (Some (Int_resp n)) out rv w = (0, rv, w)
   \<and> process_geo_double_result_async atof (Some (Array xs)) out rv w = (0, rv, w)
   \<and> process_geo_double_result_async atof None out rv w = (0, ZNull, w)"
  by (simp add: process_geo_int_result_async_def process_geo_double_result_async_def)

text \<open>
  Claim C7. With no WITH flag set the search-result processor returns what the
  generic conversion returns on the whole response. With a flag set, on a response
  whose elements are \<open>[memberName, [attributes]]\<close> (the attributes being the distance,
  then the hash, then the coordinate pair, each there exactly when its flag is set) and
  whose member names give distinct array keys, the output maps each member name to its
  attribute tuple, in the order of the response, and the status is 1. In both cases the
  block of the flags is freed.
\<close>

theorem search_result_processor:
  "(\<not> withcoord sd \<and> \<not> withdist sd \<and> \<not> withhash sd \<longrightarrow>
      process_geo_search_result_async atof symtable_key to_zval (Some resp) (Some (a, sd)) rv w =
        Some (fst (to_zval resp rv), snd (to_zval resp rv), efree a w))
   \<and> ((withcoord sd \<or> withdist sd \<or> withhash sd) \<and>
      distinct (map (\<lambda>m. symtable_key (m_name m)) ms) \<longrightarrow>
      process_geo_search_result_async atof symtable_key to_zval
          (Some (Array (map (member_response sd) ms))) (Some (a, sd)) rv w =
        Some (1, ZArray (map (\<lambda>m. (symtable_key (m_name m), member_tuple atof sd m)) ms),
              efree a w))"
proof (intro conjI impI)
  assume "\<not> withcoord sd \<and> \<not> withdist sd \<and> \<not> withhash sd"
  then show "process_geo_search_result_async atof symtable_key to_zval (Some resp) (Some (a, sd)) rv w =
        Some (fst (to_zval resp rv), snd (to_zval resp rv), efree a w)"
    by (simp add: process_geo_search_result_async_def split: prod.splits)
next
  assume h: "(withcoord sd \<or> withdist sd \<or> withhash sd) \<and>
      distinct (map (\<lambda>m. symtable_key (m_name m)) ms)"
  then have flags: "withdist sd \<or> withhash sd \<or> withcoord sd" by blast
  from h have "distinct (map fst ([] :: (zkey \<times> 'a zval) list) @ map (\<lambda>m. symtable_key (m_name m)) ms)"
    by simp
  from search_loop_responses [OF flags this, of atof]
  show "process_geo_search_result_async atof symtable_key to_zval
          (Some (Array (map (member_response sd) ms))) (Some (a, sd)) rv w =
        Some (1, ZArray (map (\<lambda>m. (symtable_key (m_name m), member_tuple atof sd m)) ms),
              efree a w)"
    using flags by (auto simp: process_geo_search_result_async_def)
qed

theorem search_result_processor_witness:
  "process_geo_search_result_async keep_text KStr plain_names
      (Some (Array [Array [String ''Palermo'', Array [String ''190.4424'']]]))
      (Some (7, \<lparr>withcoord = False, withdist = True, withhash = False\<rparr>)) ZNull empty_world =
     Some (1, ZArray [(KStr ''Palermo'', ZArray [(KInt 0, ZDouble ''190.4424'')])],
           empty_world\<lparr>frees := [7]\<rparr>)
   \<and> process_geo_search_result_async keep_text KStr plain_names
      (Some (Array [Array [String ''Palermo'',
                           Array [String ''190.4424'', Int_resp 3479099956230698,
                                  Array [String ''13.361389'', String ''38.115556'']]],
                    Array [String ''Catania'',
                           Array [Float ''56.4413'', Int_resp 3479447370796909,
                                  Array [Float ''15.087269'', Float ''37.502669'']]]]))
      (Some (7, \<lparr>withcoord = True, withdist = True, withhash = True\<rparr>)) ZNull empty_world =
     Some (1, ZArray [(KStr ''Palermo'',
                       ZArray [(KInt 0, ZDouble ''190.4424''), (KInt 1, ZLong 3479099956230698),
                               (KInt 2, ZArray [(KInt 0, ZDouble ''13.361389''),
                                                (KInt 1, ZDouble ''38.115556'')])]),
                      (KStr ''Catania'',
                       ZArray [(KInt 0, ZDouble ''56.4413''), (KInt 1, ZLong 3479447370796909),
                               (KInt 2, ZArray [(KInt 0, ZDouble ''15.087269''),
                                                (KInt 1, ZDouble ''37.502669'')])])],
           empty_world\<lparr>frees := [7]\<rparr>)
   \<and> process_geo_search_result_async keep_text KStr plain_names
      (Some (Array [String ''Palermo'', String ''Catania'']))
      (Some (7, \<lparr>withcoord = False, withdist = False, withhash = False\<rparr>)) ZNull empty_world =
     Some (1, ZArray [(KInt 0, ZString ''Palermo''), (KInt 1, ZString ''Catania'')],
           empty_world\<lparr>frees := [7]\<rparr>)"
  using
    search_result_processor [where sd = "\<lparr>withcoord = False, withdist = True, withhash = False\<rparr>"
      and ms = "[palermo_found]" and atof = keep_text and symtable_key = KStr
      and to_zval = plain_names and a = 7 and rv = ZNull and w = empty_world, THEN conjunct2]
    search_result_processor [where sd = "\<lparr>withcoord = True, withdist = True, withhash = True\<rparr>"
      and ms = "[palermo_found, catania_found]" and atof = keep_text and symtable_key = KStr
      and to_zval = plain_names and a = 7 and rv = ZNull and w = empty_world, THEN conjunct2]
    search_result_processor [where sd = "\<lparr>withcoord = False, withdist = False, withhash = False\<rparr>"
      and resp = "Array [String ''Palermo'', String ''Catania'']" and atof = keep_text
      and symtable_key = KStr and to_zval = plain_names and a = 7 and rv = ZNull
      and w = empty_world, THEN conjunct1]
  by (simp add: member_response_def member_tuple_def php_list_def palermo_found_def
      catania_found_def plain_names_def efree_def empty_world_def keep_text_def)

subsection \<open>The dispatcher\<close>

lemma empty_world_simps [simp]:
  "next_addr empty_world = 0" "alloc_budget empty_world = None" "frees empty_world = []"
  "invalid_frees empty_world = []" "freed_results empty_world = []" "batch empty_world = 0"
  by (simp_all add: empty_world_def)

lemma frees_efree_str_fold:
  "frees (fold efree_str ps w) = frees w @ scratch_addrs ps"
proof (induction ps arbitrary: w)
  case Nil
  then show ?case by (simp add: scratch_addrs_def)
next
  case (Cons p ps)
  then show ?case by (cases p) (simp_all add: scratch_addrs_def efree_def)
qed

lemma batch_efree_str [simp]: "batch (efree_str p w) = batch w"
  by (cases p) (simp_all add: efree_def)

lemma batch_efree_str_fold [simp]: "batch (fold efree_str ps w) = batch w"
  by (induction ps arbitrary: w) simp_all

lemma batch_efree_array [simp]: "batch (efree_array p w) = batch w"
  by (simp add: efree_array_def efree_def split: option.splits)

lemma batch_release_all [simp]: "batch (release_all r w) = batch w"
  by (simp add: release_all_def free_scratch_arrays_def free_ledgered_def split: option.splits)

lemma frees_efree_array: "frees (efree_array p w) = frees w @ array_addr p"
  by (simp add: efree_array_def array_addr_def efree_def split: option.splits)

lemma frees_release_all:
  "frees (release_all r w) =
     frees w @ scratch_addrs (ledgered r) @
     array_addr (allocated_strings r) @ array_addr (arg_values r) @ array_addr (arg_lens r)"
  by (simp add: release_all_def free_scratch_arrays_def free_ledgered_def frees_efree_array
      frees_efree_str_fold ledgered_def scratch_addrs_def split: option.splits)

lemma palermo_prepared_by_type:
  "prepare_by_type text_formatters GeoSearch palermo_search empty_world = Inr palermo_prepared"
  by code_simp

lemma release_palermo_prepared:
  "frees w = [] \<Longrightarrow> release_all palermo_prepared w = w\<lparr>frees := [3, 0, 1, 2]\<rparr>"
  by (simp add: release_all_def free_scratch_arrays_def free_ledgered_def efree_array_def
      efree_def palermo_prepared_def)

text \<open>
  The ledgers the builders hand back hold heap blocks only, whatever the allocation
  budget: the release sequence never frees a borrowed pointer.
\<close>

lemma double_to_string_scratch: "double_to_string fm v w = (Some p, w') \<Longrightarrow> is_scratch p"
  by (auto simp: double_to_string_def split: prod.splits option.splits)

lemma long_to_string_scratch: "long_to_string fm v w = (Some p, w') \<Longrightarrow> is_scratch p"
  by (auto simp: long_to_string_def split: prod.splits option.splits)

lemma zval_to_string_safe_scratch:
  "zval_to_string_safe fm z w = (Some p, True, w') \<Longrightarrow> is_scratch p"
  by (auto simp: zval_to_string_safe_def split: prod.splits option.splits zval.splits)

lemma ledger_ok_set_arg [simp]: "ledger_ok (set_arg p st) = ledger_ok st"
  by (simp add: ledger_ok_def set_arg_def)

lemma ledger_ok_ledger_add: "is_scratch p \<Longrightarrow> ledger_ok st \<Longrightarrow> ledger_ok (ledger_add p st)"
  by (simp add: ledger_ok_def ledger_add_def put_def)

lemma from_block_ledger_ok:
  "ledger_ok st \<Longrightarrow> from_block fm f st w = (b, st', w') \<Longrightarrow> ledger_ok st'"
  by (auto simp: from_block_def Let_def ledger_ok_ledger_add
      dest!: double_to_string_scratch split: zval.splits option.splits prod.splits)

lemma by_block_ledger_ok:
  "ledger_ok st \<Longrightarrow> by_block fm r u st w = (b, st', w') \<Longrightarrow> ledger_ok st'"
  by (auto simp: by_block_def Let_def ledger_ok_ledger_add
      dest!: double_to_string_scratch split: option.splits prod.splits)

lemma with_block_ledger_ok [simp]: "ledger_ok (with_block wo st) = ledger_ok st"
  by (simp add: with_block_def Let_def)

lemma sort_block_ledger_ok [simp]: "ledger_ok (sort_block ro st) = ledger_ok st"
  by (simp add: sort_block_def split: option.splits)

lemma storedist_block_ledger_ok [simp]: "ledger_ok (storedist_block ro st) = ledger_ok st"
  by (simp add: storedist_block_def)

lemma count_block_ledger_ok:
  "ledger_ok st \<Longrightarrow> count_block fm ro st w = (b, st', w') \<Longrightarrow> ledger_ok st'"
  by (auto simp: count_block_def Let_def ledger_ok_ledger_add
      dest!: long_to_string_scratch split: option.splits prod.splits if_splits)

lemma convert_loop_ledger_ok:
  "ledger_ok st \<Longrightarrow> convert_loop fm zs st w = (b, st', w') \<Longrightarrow> ledger_ok st'"
proof (induction zs arbitrary: st w)
  case Nil
  then show ?case by simp
next
  case (Cons z zs)
  show ?case
  proof (cases "zval_to_string_safe fm z w")
    case (fields p need_free w1)
    show ?thesis
    proof (cases p)
      case None
      with Cons.prems fields show ?thesis by simp
    next
      case (Some str_val)
      show ?thesis
      proof (cases need_free)
        case True
        from fields Some True have "zval_to_string_safe fm z w = (Some str_val, True, w1)"
          by simp
        then have "is_scratch str_val" by (rule zval_to_string_safe_scratch)
        then have "ledger_ok (ledger_add str_val (set_arg str_val st))"
          using Cons.prems(1) by (simp add: ledger_ok_ledger_add)
        from Cons.IH [OF this] Cons.prems(2) fields Some True show ?thesis by simp
      next
        case False
        have "ledger_ok (set_arg str_val st)" using Cons.prems(1) by simp
        from Cons.IH [OF this] Cons.prems(2) fields Some False show ?thesis by simp
      qed
    qed
  qed
qed

lemma ledgered_failed [simp]: "ledgered (failed st w) = elems (ledger st)"
  by (simp add: ledgered_def failed_def)

lemma ledgered_built [simp]: "ledgered (built st w) = elems (ledger st)"
  by (simp add: ledgered_def built_def)

lemma ledgered_rejected [simp]: "ledgered (rejected (Some led) w) = elems led"
  by (simp add: ledgered_def rejected_def)

lemma alloc_arg_arrays_ledgered:
  "alloc_arg_arrays n (Some led) w = Inl r \<Longrightarrow> ledgered r = elems led"
  by (auto simp: alloc_arg_arrays_def ledgered_def split: prod.splits option.splits)

lemma fresh_ledger_ok:
  "ledger_ok (set_arg p \<lparr>args_out = vs, args_len_out = ls, ledger = led\<lparr>elems := []\<rparr>\<rparr>)"
  by (simp add: ledger_ok_def set_arg_def)

lemma fresh_ledger_ok2:
  "ledger_ok (set_arg q (set_arg p \<lparr>args_out = vs, args_len_out = ls, ledger = led\<lparr>elems := []\<rparr>\<rparr>))"
  by (simp add: ledger_ok_def set_arg_def)

lemma ledgered_count_update [simp]: "ledgered (r\<lparr>arg_count := n\<rparr>) = ledgered r"
  by (simp add: ledgered_def)

lemma alloc_failed_ledgered:
  "alloc_arg_arrays n (Some (led\<lparr>elems := []\<rparr>)) w = Inl r \<Longrightarrow> list_all is_scratch (ledgered r)"
  by (drule alloc_arg_arrays_ledgered) simp

lemma members_ledgered:
  assumes "elems led = []"
  shows "list_all is_scratch (ledgered (prepare_geo_members_args fm args led w))"
proof -
  have rej: "list_all is_scratch (ledgered (rejected (Some led) w :: ('a, 'b) prepared))"
    using assms by simp
  show ?thesis
  proof (cases args)
    case None
    then show ?thesis using rej by (simp add: prepare_geo_members_args_def)
  next
    case (Some a)
    show ?thesis
    proof (cases "key a = None \<or> members a = None \<or> member_count a \<le> 0")
      case True
      then show ?thesis using rej Some
        by (auto simp: prepare_geo_members_args_def split: option.splits)
    next
      case False
      then obtain k ms where k: "key a = Some k" and ms: "members a = Some ms"
        and pos: "\<not> member_count a \<le> 0" by auto
      show ?thesis
      proof (cases "alloc_arg_arrays (1 + member_count a) (Some (led\<lparr>elems := []\<rparr>)) w")
        case (Inl r)
        then show ?thesis using Some k ms pos alloc_failed_ledgered [OF Inl]
          by (simp add: prepare_geo_members_args_def)
      next
        case (Inr t)
        obtain vs ls w1 where t: "t = (vs, ls, w1)" by (cases t)
        obtain b st w2 where loop: "convert_loop fm ms
          (set_arg (Caller k) \<lparr>args_out = vs, args_len_out = ls, ledger = led\<lparr>elems := []\<rparr>\<rparr>) w1
            = (b, st, w2)" by (metis prod_cases3)
        have "ledger_ok st" using convert_loop_ledger_ok [OF fresh_ledger_ok loop] .
        then show ?thesis using Some k ms pos Inr t loop
          by (cases b) (simp_all add: prepare_geo_members_args_def ledger_ok_def)
      qed
    qed
  qed
qed

lemma add_ledgered:
  assumes "elems led = []"
  shows "list_all is_scratch (ledgered (prepare_geo_add_args fm args led w))"
proof -
  have rej: "list_all is_scratch (ledgered (rejected (Some led) w :: ('a, 'b) prepared))"
    using assms by simp
  show ?thesis
  proof (cases args)
    case None
    then show ?thesis using rej by (simp add: prepare_geo_add_args_def)
  next
    case (Some a)
    show ?thesis
    proof (cases "key a = None \<or> geo_args a = None \<or> geo_args_count a < 3 \<or>
                  geo_args_count a mod 3 \<noteq> 0")
      case True
      then show ?thesis using rej Some
        by (auto simp: prepare_geo_add_args_def split: option.splits)
    next
      case False
      then obtain k gs where k: "key a = Some k" and gs: "geo_args a = Some gs"
        and ok: "\<not> (geo_args_count a < 3 \<or> geo_args_count a mod 3 \<noteq> 0)" by auto
      show ?thesis
      proof (cases "alloc_arg_arrays (1 + geo_args_count a) (Some (led\<lparr>elems := []\<rparr>)) w")
        case (Inl r)
        then show ?thesis using Some k gs ok alloc_failed_ledgered [OF Inl]
          by (simp add: prepare_geo_add_args_def)
      next
        case (Inr t)
        obtain vs ls w1 where t: "t = (vs, ls, w1)" by (cases t)
        obtain b st w2 where loop: "convert_loop fm gs
          (set_arg (Caller k) \<lparr>args_out = vs, args_len_out = ls, ledger = led\<lparr>elems := []\<rparr>\<rparr>) w1
            = (b, st, w2)" by (metis prod_cases3)
        have "ledger_ok st" using convert_loop_ledger_ok [OF fresh_ledger_ok loop] .
        then show ?thesis using Some k gs ok Inr t loop
          by (cases b) (simp_all add: prepare_geo_add_args_def ledger_ok_def)
      qed
    qed
  qed
qed

lemma search_blocks_ledgered:
  assumes pre: "\<And>st. ledger_ok (pre st) = ledger_ok st"
    and post: "\<And>st. ledger_ok (post st) = ledger_ok st"
    and st0: "ledger_ok st0"
  shows "list_all is_scratch (ledgered
     (case from_block fm f st0 w0 of
        (False, st1, w1) \<Rightarrow> failed st1 w1
      | (True, st1, w1) \<Rightarrow>
     (case by_block fm radius u st1 w1 of
        (False, st2, w2) \<Rightarrow> failed st2 w2
      | (True, st2, w2) \<Rightarrow>
     (case count_block fm ro (pre st2) w2 of
        (False, st3, w3) \<Rightarrow> failed st3 w3
      | (True, st3, w3) \<Rightarrow> built (post st3) w3))))"
proof -
  obtain b1 st1 w1 where f: "from_block fm f st0 w0 = (b1, st1, w1)" by (metis prod_cases3)
  have ok1: "ledger_ok st1" using from_block_ledger_ok [OF st0 f] .
  obtain b2 st2 w2 where b: "by_block fm radius u st1 w1 = (b2, st2, w2)" by (metis prod_cases3)
  have ok2: "ledger_ok st2" using by_block_ledger_ok [OF ok1 b] .
  then have ok2': "ledger_ok (pre st2)" by (simp add: pre)
  obtain b3 st3 w3 where c: "count_block fm ro (pre st2) w2 = (b3, st3, w3)"
    by (metis prod_cases3)
  have ok3: "ledger_ok st3" using count_block_ledger_ok [OF ok2' c] .
  then have ok3': "ledger_ok (post st3)" by (simp add: post)
  show ?thesis
    using ok1 ok2 ok3 ok3' by (cases b1; cases b2; cases b3) (simp_all add: f b c ledger_ok_def)
qed

lemma search_ledgered:
  assumes "elems led = []"
  shows "list_all is_scratch (ledgered (prepare_geo_search_args fm args led w))"
proof -
  have rej: "list_all is_scratch (ledgered (rejected (Some led) w :: ('a, 'b) prepared))"
    using assms by simp
  show ?thesis
  proof (cases args)
    case None
    then show ?thesis using rej by (simp add: prepare_geo_search_args_def)
  next
    case (Some a)
    show ?thesis
    proof (cases "key a = None \<or> from_zv a = None \<or> by_radius a = None \<or> unit a = None")
      case True
      then show ?thesis using rej Some
        by (auto simp: prepare_geo_search_args_def split: option.splits)
    next
      case False
      then obtain k f r u where h: "key a = Some k" "from_zv a = Some f" "by_radius a = Some r"
        "unit a = Some u" by auto
      show ?thesis
      proof (cases "alloc_arg_arrays 15 (Some (led\<lparr>elems := []\<rparr>)) w")
        case (Inl r)
        then show ?thesis using Some h alloc_failed_ledgered [OF Inl]
          by (simp add: prepare_geo_search_args_def)
      next
        case (Inr t)
        obtain vs ls w1 where t: "t = (vs, ls, w1)" by (cases t)
        show ?thesis
          using Some h Inr t
            search_blocks_ledgered [OF _ _ fresh_ledger_ok,
              of "with_block (with_opts (radius_opts a))" "sort_block (radius_opts a)"]
          by (simp add: prepare_geo_search_args_def)
      qed
    qed
  qed
qed

lemma search_store_ledgered:
  assumes "elems led = []"
  shows "list_all is_scratch (ledgered (prepare_geo_search_store_args fm args led w))"
proof -
  have rej: "list_all is_scratch (ledgered (rejected (Some led) w :: ('a, 'b) prepared))"
    using assms by simp
  show ?thesis
  proof (cases args)
    case None
    then show ?thesis using rej by (simp add: prepare_geo_search_store_args_def)
  next
    case (Some a)
    show ?thesis
    proof (cases "dest a = None \<or> src a = None \<or> from_zv a = None \<or> by_radius a = None \<or>
                  unit a = None")
      case True
      then show ?thesis using rej Some
        by (auto simp: prepare_geo_search_store_args_def split: option.splits)
    next
      case False
      then obtain d s f r u where h: "dest a = Some d" "src a = Some s" "from_zv a = Some f"
        "by_radius a = Some r" "unit a = Some u" by auto
      show ?thesis
      proof (cases "alloc_arg_arrays 16 (Some (led\<lparr>elems := []\<rparr>)) w")
        case (Inl r)
        then show ?thesis using Some h alloc_failed_ledgered [OF Inl]
          by (simp add: prepare_geo_search_store_args_def)
      next
        case (Inr t)
        obtain vs ls w1 where t: "t = (vs, ls, w1)" by (cases t)
        show ?thesis
          using Some h Inr t
            search_blocks_ledgered [OF _ _ fresh_ledger_ok2,
              of "\<lambda>st. st" "\<lambda>st. storedist_block (radius_opts a) (sort_block (radius_opts a) st)"]
          by (simp add: prepare_geo_search_store_args_def)
      qed
    qed
  qed
qed

lemma dist_ledgered: "ledgered (prepare_geo_dist_args args w) = []"
  by (auto simp: prepare_geo_dist_args_def ledgered_def rejected_def alloc_arg_arrays_def Let_def
      split: option.splits sum.splits prod.splits)

lemma emalloc_array_empty: "emalloc_array n w = (Some led, w') \<Longrightarrow> elems led = []"
  by (auto simp: emalloc_array_def split: prod.splits option.splits)

lemma prepare_by_type_ledgered:
  "prepare_by_type fm cmd a w = Inr r \<Longrightarrow> list_all is_scratch (ledgered r)"
  by (cases cmd)
     (auto simp: prepare_by_type_def with_ledger_def dist_ledgered members_ledgered add_ledgered
        search_ledgered search_store_ledgered
        dest: emalloc_array_empty split: prod.splits option.splits)

lemma invalid_frees_efree_str:
  "is_scratch p \<Longrightarrow> invalid_frees (efree_str p w) = invalid_frees w"
  by (cases p) (simp_all add: efree_def)

lemma invalid_frees_fold:
  "list_all is_scratch ps \<Longrightarrow> invalid_frees (fold efree_str ps w) = invalid_frees w"
  by (induction ps arbitrary: w) (simp_all add: invalid_frees_efree_str)

lemma invalid_frees_efree_array [simp]: "invalid_frees (efree_array p w) = invalid_frees w"
  by (simp add: efree_array_def efree_def split: option.splits)

lemma invalid_frees_release_all:
  "list_all is_scratch (ledgered r) \<Longrightarrow> invalid_frees (release_all r w) = invalid_frees w"
  by (simp add: release_all_def free_scratch_arrays_def free_ledgered_def ledgered_def
      invalid_frees_fold split: option.splits)

text \<open>
  Claim C1 fails on the code. A member-list command with the members 1 and 2, run
  synchronously, where the fourth allocation request fails (the ledger array, the two
  argument arrays and the text of the first member are obtained; the text of the second
  member is not): the builder frees the ledgered text (block 3) and both arrays (blocks
  1 and 2) and returns 0, leaving the array pointers in the dispatcher's variables; the
  dispatcher then frees the ledger array (block 0) and both arrays again. The same
  happens when the search builder cannot format the radius after both coordinates
  were ledgered, and when the distance builder obtains only the first of its arrays.
  In each case the status is 0, the batch is unchanged and the executor is not run.
\<close>

theorem midbuild_failure_frees_arrays_twice:
  "execute_geo_generic_command text_formatters (replies None) count_commands (Some sync_client)
     GeoHash (Some two_longs) () process_geo_int_result_async ZNull
     (empty_world\<lparr>alloc_budget := Some 4\<rparr>) =
   (0, ZNull,
    \<lparr>next_addr = 4, alloc_budget = Some 0, frees = [3, 1, 2, 0, 1, 2], invalid_frees = [],
     freed_results = [], batch = 0\<rparr>)
   \<and> execute_geo_generic_command text_formatters (replies None) count_commands (Some batch_client)
     GeoSearch (Some lonlat_search) () process_geo_int_result_async ZNull
     (empty_world\<lparr>alloc_budget := Some 5\<rparr>) =
   (0, ZNull,
    \<lparr>next_addr = 5, alloc_budget = Some 0, frees = [3, 4, 1, 2, 0, 1, 2], invalid_frees = [],
     freed_results = [], batch = 0\<rparr>)
   \<and> execute_geo_generic_command text_formatters (replies None) count_commands (Some sync_client)
     GeoDist (Some (no_args\<lparr>key := Some ''k'', src_member := Some ''Palermo'',
                             dst_member := Some ''Catania''\<rparr>)) ()
     process_geo_int_result_async ZNull (empty_world\<lparr>alloc_budget := Some 1\<rparr>) =
   (0, ZNull,
    \<lparr>next_addr = 1, alloc_budget = Some 0, frees = [0, 0], invalid_frees = [],
     freed_results = [], batch = 0\<rparr>)"
  by code_simp

text \<open>
  Claim C5. For a synchronous dispatch (batch flag clear) whose builder returned a
  positive count, the executor is run on the argument list and every ledgered string
  (each a block of the heap), the ledger array, the argument array and the length array
  are freed, and nothing else (\<open>w1\<close>). Then:
  on a null result the status is 0; on a command-level error the result object is freed
  and the status is 0, the outcome not depending on the processor, which is not run;
  otherwise the processor is run on the response, the result object is freed, and the
  status and the return value are the processor's.
\<close>

theorem sync_dispatch:
  "is_in_batch_mode vg = False \<and> prepare_by_type fm cmd a w = Inr r \<and> 0 < arg_count r \<longrightarrow>
     (let result = exec (glide_client vg) cmd (arg_count r) (arg_values r) (arg_lens r);
          w1 = release_all r (world_after r);
          out = execute_geo_generic_command fm exec buf (Some vg) cmd (Some a) result_ptr p rv w
      in (result = None \<longrightarrow> out = (0, rv, w1)) \<and>
         (\<forall>res. result = Some res \<and> command_error res \<noteq> None \<longrightarrow>
            out = (0, rv, free_command_result res w1)) \<and>
         (\<forall>res. result = Some res \<and> command_error res = None \<longrightarrow>
            out = (fst (p (response res) result_ptr rv w1),
                   fst (snd (p (response res) result_ptr rv w1)),
                   free_command_result res (snd (snd (p (response res) result_ptr rv w1))))) \<and>
         list_all is_scratch (ledgered r) \<and>
         frees w1 =
           frees (world_after r) @ scratch_addrs (ledgered r) @
           array_addr (allocated_strings r) @ array_addr (arg_values r) @ array_addr (arg_lens r) \<and>
         invalid_frees w1 = invalid_frees (world_after r))"
  by (auto simp: execute_geo_generic_command_def Let_def frees_release_all
      prepare_by_type_ledgered invalid_frees_release_all split: prod.splits)

theorem sync_dispatch_witness:
  "execute_geo_generic_command text_formatters (replies None) count_commands (Some sync_client)
      GeoSearch (Some palermo_search) () process_geo_int_result_async ZNull empty_world =
     (0, ZNull, empty_world\<lparr>next_addr := 4, frees := [3, 0, 1, 2]\<rparr>)
   \<and> execute_geo_generic_command text_formatters (replies (Some error_reply)) count_commands
      (Some sync_client) GeoSearch (Some palermo_search) () process_geo_int_result_async ZNull
      empty_world =
     (0, ZNull, empty_world\<lparr>next_addr := 4, frees := [3, 0, 1, 2], freed_results := [error_reply]\<rparr>)
   \<and> execute_geo_generic_command text_formatters (replies (Some int_reply)) count_commands
      (Some sync_client) GeoSearch (Some palermo_search) () process_geo_int_result_async ZNull
      empty_world =
     (1, ZLong 2, empty_world\<lparr>next_addr := 4, frees := [3, 0, 1, 2], freed_results := [int_reply]\<rparr>)"
proof -
  have w: "world_after palermo_prepared = empty_world\<lparr>next_addr := 4\<rparr>"
    by (simp add: palermo_prepared_def)
  have pre: "is_in_batch_mode sync_client = False \<and>
     prepare_by_type text_formatters GeoSearch palermo_search empty_world = Inr palermo_prepared \<and>
     0 < arg_count palermo_prepared"
    by (simp add: palermo_prepared_by_type sync_client_def) (simp add: palermo_prepared_def)
  note t = sync_dispatch [where vg = sync_client and fm = text_formatters and cmd = GeoSearch
      and a = palermo_search and w = empty_world and r = palermo_prepared
      and buf = count_commands and result_ptr = "()" and p = process_geo_int_result_async
      and rv = ZNull, rule_format, OF pre, unfolded Let_def]
  show ?thesis
    using t [where exec = "replies None"] t [where exec = "replies (Some error_reply)"]
      t [where exec = "replies (Some int_reply)"]
    by (simp add: replies_def w release_palermo_prepared error_reply_def int_reply_def
        free_command_result_def process_geo_int_result_async_def)
qed

text \<open>
  Claim C2, as stated, fails: in batch mode the ledgered string (block 3, the text
  of the radius) is freed before the dispatcher returns.
\<close>

theorem batch_dispatch_frees_ledgered_strings:
  "prepare_by_type text_formatters GeoSearch palermo_search empty_world = Inr palermo_prepared
   \<and> ledgered palermo_prepared = [Scratch 3 ''200'']
   \<and> execute_geo_generic_command text_formatters (replies None) count_commands (Some batch_client)
      GeoSearch (Some palermo_search) () process_geo_int_result_async ZNull empty_world =
     (1, ZNull, empty_world\<lparr>next_addr := 4, frees := [3, 0, 1, 2], batch := 1\<rparr>)"
  by code_simp

text \<open>
  Claim C2, amended. For a dispatch in batch-recording mode whose builder returned a
  positive count, the dispatcher hands the command type, the argument array, the length
  array, the count, the result slot and the processor to the accumulator's append, then
  frees every ledgered string (each a block of the heap), the ledger array, the argument
  array and the length array, and nothing else (the release sequence of the synchronous
  path), and returns the append status.
\<close>

theorem batch_dispatch:
  "is_in_batch_mode vg = True \<and> prepare_by_type fm cmd a w = Inr r \<and> 0 < arg_count r \<longrightarrow>
     (let appended = buf vg cmd (arg_values r) (arg_lens r) (arg_count r) result_ptr p
                       (batch (world_after r));
          out = execute_geo_generic_command fm exec buf (Some vg) cmd (Some a) result_ptr p rv w
      in out = (fst appended, rv, release_all r ((world_after r)\<lparr>batch := snd appended\<rparr>)) \<and>
         batch (snd (snd out)) = snd appended \<and>
         list_all is_scratch (ledgered r) \<and>
         frees (snd (snd out)) =
           frees (world_after r) @ scratch_addrs (ledgered r) @
           array_addr (allocated_strings r) @ array_addr (arg_values r) @ array_addr (arg_lens r) \<and>
         invalid_frees (snd (snd out)) = invalid_frees (world_after r))"
  by (auto simp: execute_geo_generic_command_def Let_def frees_release_all
      prepare_by_type_ledgered invalid_frees_release_all split: prod.splits)

theorem batch_dispatch_witness:
  "execute_geo_generic_command text_formatters (replies None) count_commands (Some batch_client)
      GeoSearch (Some palermo_search) () process_geo_int_result_async ZNull empty_world =
     (1, ZNull, empty_world\<lparr>next_addr := 4, frees := [3, 0, 1, 2], batch := 1\<rparr>)"
proof -
  have w: "world_after palermo_prepared = empty_world\<lparr>next_addr := 4\<rparr>"
    by (simp add: palermo_prepared_def)
  have pre: "is_in_batch_mode batch_client = True \<and>
     prepare_by_type text_formatters GeoSearch palermo_search empty_world = Inr palermo_prepared \<and>
     0 < arg_count palermo_prepared"
    by (simp add: palermo_prepared_by_type batch_client_def) (simp add: palermo_prepared_def)
  from batch_dispatch [where vg = batch_client and fm = text_formatters and cmd = GeoSearch
      and a = palermo_search and w = empty_world and r = palermo_prepared
      and buf = count_commands and result_ptr = "()" and p = process_geo_int_result_async
      and rv = ZNull and exec = "replies None", rule_format, OF pre, unfolded Let_def]
  show ?thesis
    by (simp add: count_commands_def w release_palermo_prepared)
qed

end
